theory Spec2Isabelle
  imports Complex_Main "HOL-Library.AList"
begin

text \<open>
  A shallow embedding of the closed-loop controller of the self-evolution system: the
  Challenge Controller, the Risk/Confidence Evaluator and the Execution Engine (class
  \<^verbatim>\<open>SelfEvolutionSystem\<close>, the second class of \<^verbatim>\<open>src/src/transfer/KnowledgeTransfer.ts\<close>),
  the Learning Engine (class \<^verbatim>\<open>LearningEngine\<close>, \<^verbatim>\<open>src/unnamed/part_003\<close>), the receiving
  side of Knowledge Transfer (class \<^verbatim>\<open>KnowledgeTransfer\<close>, the first class of the same
  file) and the two solution constructors of the Solution Generator
  (\<^verbatim>\<open>src/src/generators/SolutionGenerator.ts\<close>). Methods are functions from the state of
  their object to its new state; what a method reads from outside the program (clock,
  random identifiers, the monitor, the file system) is an explicit argument.
\<close>

section \<open>JavaScript numbers\<close>

text \<open>
  Every numeric quantity of the program is a JavaScript \<^verbatim>\<open>number\<close>. The model keeps
  the three special values that decide the program's behaviour at a zero divisor
  (\<^verbatim>\<open>NaN\<close>, \<^verbatim>\<open>Infinity\<close>, \<^verbatim>\<open>-Infinity\<close>) and takes every other value as a real:
  rounding to 53 bits, overflow and the sign of zero are left out (a zero divisor is
  read as \<^verbatim>\<open>+0\<close>). The word counts the similarity score divides are far below
  \<open>2\<^sup>5\<^sup>3\<close>, so comparing their quotient with 0.8 gives the same answer over the reals.
\<close>

datatype number = NaN | PosInf | NegInf | Fin real

fun n_neg :: "number \<Rightarrow> number" where
  "n_neg NaN = NaN"
| "n_neg PosInf = NegInf"
| "n_neg NegInf = PosInf"
| "n_neg (Fin x) = Fin (- x)"

fun n_add :: "number \<Rightarrow> number \<Rightarrow> number" where
  "n_add NaN b = NaN"
| "n_add PosInf b = (case b of NaN \<Rightarrow> NaN | NegInf \<Rightarrow> NaN | _ \<Rightarrow> PosInf)"
| "n_add NegInf b = (case b of NaN \<Rightarrow> NaN | PosInf \<Rightarrow> NaN | _ \<Rightarrow> NegInf)"
| "n_add (Fin x) b = (case b of Fin y \<Rightarrow> Fin (x + y) | _ \<Rightarrow> b)"

definition n_sub :: "number \<Rightarrow> number \<Rightarrow> number" where
  "n_sub a b = n_add a (n_neg b)"

text \<open>\<open>inf_times s x\<close> is an infinity of sign \<open>s\<close> (True: positive) times the finite \<open>x\<close>.\<close>

definition inf_times :: "bool \<Rightarrow> real \<Rightarrow> number" where
  "inf_times s x =
     (if x = 0 then NaN else if (0 < x) = s then PosInf else NegInf)"

fun n_mul :: "number \<Rightarrow> number \<Rightarrow> number" where
  "n_mul NaN b = NaN"
| "n_mul PosInf b =
     (case b of NaN \<Rightarrow> NaN | PosInf \<Rightarrow> PosInf | NegInf \<Rightarrow> NegInf | Fin y \<Rightarrow> inf_times True y)"
| "n_mul NegInf b =
     (case b of NaN \<Rightarrow> NaN | PosInf \<Rightarrow> NegInf | NegInf \<Rightarrow> PosInf | Fin y \<Rightarrow> inf_times False y)"
| "n_mul (Fin x) b =
     (case b of NaN \<Rightarrow> NaN | PosInf \<Rightarrow> inf_times True x | NegInf \<Rightarrow> inf_times False x
      | Fin y \<Rightarrow> Fin (x * y))"

fun n_div :: "number \<Rightarrow> number \<Rightarrow> number" where
  "n_div NaN b = NaN"
| "n_div PosInf b =
     (case b of Fin y \<Rightarrow> (if 0 \<le> y then PosInf else NegInf) | _ \<Rightarrow> NaN)"
| "n_div NegInf b =
     (case b of Fin y \<Rightarrow> (if 0 \<le> y then NegInf else PosInf) | _ \<Rightarrow> NaN)"
| "n_div (Fin x) b =
     (case b of NaN \<Rightarrow> NaN | PosInf \<Rightarrow> Fin 0 | NegInf \<Rightarrow> Fin 0
      | Fin y \<Rightarrow>
          (if y = 0 then (if x = 0 then NaN else if 0 < x then PosInf else NegInf)
           else Fin (x / y)))"

text \<open>The comparisons \<^verbatim>\<open>a > b\<close> and \<^verbatim>\<open>a >= b\<close>: false as soon as one side is \<^verbatim>\<open>NaN\<close>.\<close>

fun n_gt :: "number \<Rightarrow> number \<Rightarrow> bool" where
  "n_gt NaN b = False"
| "n_gt PosInf b = (case b of NaN \<Rightarrow> False | PosInf \<Rightarrow> False | _ \<Rightarrow> True)"
| "n_gt NegInf b = False"
| "n_gt (Fin x) b = (case b of NegInf \<Rightarrow> True | Fin y \<Rightarrow> y < x | _ \<Rightarrow> False)"

fun n_ge :: "number \<Rightarrow> number \<Rightarrow> bool" where
  "n_ge NaN b = False"
| "n_ge PosInf b = (case b of NaN \<Rightarrow> False | _ \<Rightarrow> True)"
| "n_ge NegInf b = (case b of NegInf \<Rightarrow> True | _ \<Rightarrow> False)"
| "n_ge (Fin x) b = (case b of NegInf \<Rightarrow> True | Fin y \<Rightarrow> y \<le> x | _ \<Rightarrow> False)"

definition n_lt :: "number \<Rightarrow> number \<Rightarrow> bool" where
  "n_lt a b = n_gt b a"

definition n_le :: "number \<Rightarrow> number \<Rightarrow> bool" where
  "n_le a b = n_ge b a"

text \<open>Strict equality \<^verbatim>\<open>a === b\<close> on numbers: \<^verbatim>\<open>NaN\<close> equals nothing.\<close>

definition n_eq :: "number \<Rightarrow> number \<Rightarrow> bool" where
  "n_eq a b = (a \<noteq> NaN \<and> a = b)"

text \<open>\<^verbatim>\<open>Math.min\<close> and \<^verbatim>\<open>Math.max\<close> of two numbers: \<^verbatim>\<open>NaN\<close> when one of them is.\<close>

definition n_min :: "number \<Rightarrow> number \<Rightarrow> number" where
  "n_min a b = (if a = NaN \<or> b = NaN then NaN else if n_gt a b then b else a)"

definition n_max :: "number \<Rightarrow> number \<Rightarrow> number" where
  "n_max a b = (if a = NaN \<or> b = NaN then NaN else if n_gt b a then b else a)"

text \<open>A number is falsy (in \<^verbatim>\<open>x || d\<close>, \<^verbatim>\<open>!x\<close>) when it is zero or \<^verbatim>\<open>NaN\<close>.\<close>

definition n_falsy :: "number \<Rightarrow> bool" where
  "n_falsy a = (a = NaN \<or> a = Fin 0)"

definition of_count :: "nat \<Rightarrow> number" where
  "of_count n = Fin (real n)"


section \<open>Data model (\<^verbatim>\<open>src/src/types/index.ts\<close>)\<close>

text \<open>
  String unions are datatypes, interfaces are records (fields carry a short prefix of
  their interface, since several interfaces share \<^verbatim>\<open>id\<close>, \<^verbatim>\<open>type\<close>, \<^verbatim>\<open>description\<close>).
  A \<^verbatim>\<open>Date\<close> field is its time in milliseconds. A \<^verbatim>\<open>Record<string, T>\<close> and a
  \<^verbatim>\<open>Map\<close> are association lists in insertion order, read with \<open>map_of\<close> and written
  with \<open>AList.update\<close> (which keeps the position of an existing key, as both do).
\<close>

datatype ChallengeType =
  T_performance | T_error | T_security | T_scalability | T_usability | T_integration |
  T_data_quality | T_video_processing

fun typeName :: "ChallengeType \<Rightarrow> string" where
  "typeName T_performance = ''performance''"
| "typeName T_error = ''error''"
| "typeName T_security = ''security''"
| "typeName T_scalability = ''scalability''"
| "typeName T_usability = ''usability''"
| "typeName T_integration = ''integration''"
| "typeName T_data_quality = ''data-quality''"
| "typeName T_video_processing = ''video-processing''"

datatype Severity = S_critical | S_high | S_medium | S_low

fun severityName :: "Severity \<Rightarrow> string" where
  "severityName S_critical = ''critical''"
| "severityName S_high = ''high''"
| "severityName S_medium = ''medium''"
| "severityName S_low = ''low''"

datatype ChallengeStatus = Pending | Analyzing | Ready | Executing | Resolved | Failed

datatype ChallengeSource = Src_auto | Src_manual | Src_monitor

datatype Outcome = Success | Failure | Partial

fun outcomeName :: "Outcome \<Rightarrow> string" where
  "outcomeName Success = ''success''"
| "outcomeName Failure = ''failure''"
| "outcomeName Partial = ''partial''"

datatype ImplementationType = I_code | I_config | I_process | I_infrastructure

datatype RiskImpact = R_high | R_medium | R_low

datatype Operator = Op_gt | Op_lt | Op_eq | Op_gte | Op_lte

datatype Combinator = C_AND | C_OR

datatype ValidationType = V_metric | V_log | V_test | V_health_check

datatype ValidationOperator = VO_equals | VO_greater | VO_less | VO_contains | VO_matches

datatype LogLevel = L_error | L_warn | L_info

text \<open>
  A value of type \<^verbatim>\<open>any\<close>. An object and a \<^verbatim>\<open>Date\<close> carry a reference (the only thing
  \<^verbatim>\<open>===\<close> compares on them); arrays and functions are not modelled.
\<close>

datatype jsval =
  VUndefined | VNull | VBool bool | VNum number | VStr string
| VDate nat nat
| VObj nat "(string \<times> jsval) list"

fun truthy :: "jsval \<Rightarrow> bool" where
  "truthy VUndefined = False"
| "truthy VNull = False"
| "truthy (VBool b) = b"
| "truthy (VNum n) = (\<not> n_falsy n)"
| "truthy (VStr s) = (s \<noteq> [])"
| "truthy (VDate r t) = True"
| "truthy (VObj r fs) = True"

fun strictEq :: "jsval \<Rightarrow> jsval \<Rightarrow> bool" where
  "strictEq VUndefined b = (b = VUndefined)"
| "strictEq VNull b = (b = VNull)"
| "strictEq (VBool x) b = (b = VBool x)"
| "strictEq (VNum x) b = (case b of VNum y \<Rightarrow> n_eq x y | _ \<Rightarrow> False)"
| "strictEq (VStr x) b = (b = VStr x)"
| "strictEq (VDate r t) b = (case b of VDate r' t' \<Rightarrow> r = r' | _ \<Rightarrow> False)"
| "strictEq (VObj r fs) b = (case b of VObj r' fs' \<Rightarrow> r = r' | _ \<Rightarrow> False)"

text \<open>\<^verbatim>\<open>o[k]\<close>: a missing key reads as \<^verbatim>\<open>undefined\<close>.\<close>

definition getProp :: "(string \<times> jsval) list \<Rightarrow> string \<Rightarrow> jsval" where
  "getProp obj k = (case map_of obj k of None \<Rightarrow> VUndefined | Some v \<Rightarrow> v)"

record ValidationRule =
  vr_type :: ValidationType
  vr_expected :: jsval
  vr_operator :: ValidationOperator

record ExecutionStep =
  es_order :: number
  es_action :: string
  es_target :: string
  es_parameters :: "(string \<times> jsval) list"
  es_validation :: "ValidationRule list"

record Implementation =
  im_type :: ImplementationType
  im_steps :: "ExecutionStep list"
  im_rollbackPlan :: "ExecutionStep list"
  im_estimatedDuration :: number

record Impact =
  i_performance :: number
  i_reliability :: number
  i_userExperience :: number
  i_cost :: number
  i_security :: number

record Risk =
  r_description :: string
  r_probability :: number
  r_impact :: RiskImpact
  r_mitigation :: string

record Solution =
  s_id :: string
  s_challengeId :: string
  s_title :: string
  s_description :: string
  s_implementation :: Implementation
  s_confidence :: number
  s_estimatedImpact :: Impact
  s_prerequisites :: "string list"
  s_risks :: "Risk list"
  s_createdAt :: nat
  s_executionTime :: "number option"

record Learning =
  l_id :: string
  l_challengeId :: string
  l_solutionId :: string
  l_outcome :: Outcome
  l_metrics :: "(string \<times> number) list"
  l_lessons :: "string list"
  l_timestamp :: nat
  l_affectedComponents :: "string list"

record SystemChallenge =
  c_id :: string
  c_type :: ChallengeType
  c_severity :: Severity
  c_description :: string
  c_detectedAt :: nat
  c_context :: "(string \<times> jsval) list"
  c_proposedSolutions :: "Solution list"
  c_status :: ChallengeStatus
  c_learnings :: "Learning list"
  c_source :: ChallengeSource

record SystemMetrics =
  m_cpu :: number
  m_memory :: number
  m_diskUsage :: number
  m_networkLatency :: number
  m_errorRate :: number
  m_responseTime :: number
  m_activeUsers :: number
  m_videoProcessingQueue :: number

record MetricCondition =
  mc_metric :: string
  mc_operator :: Operator
  mc_value :: number
  mc_duration :: "number option"

record LogCondition =
  lc_pattern :: string
  lc_level :: LogLevel
  lc_frequency :: number
  lc_timeWindow :: number

record EventCondition =
  ec_event :: string
  ec_properties :: "(string \<times> jsval) list option"

text \<open>
  \<^verbatim>\<open>TriggerCondition.metrics\<close> is declared optional; every trigger the Learning Engine
  holds or builds has the list, and the model takes it as present.
\<close>

record TriggerCondition =
  t_metrics :: "MetricCondition list"
  t_logs :: "LogCondition list"
  t_events :: "EventCondition list"
  t_combinator :: Combinator

record SolutionTemplate =
  st_name :: string
  st_steps :: "string list"
  st_parameters :: "(string \<times> jsval) list"
  st_expectedOutcome :: string

record Pattern =
  p_id :: string
  p_name :: string
  p_description :: string
  p_trigger :: TriggerCondition
  p_solution :: SolutionTemplate
  p_successRate :: number
  p_usageCount :: number

record KnowledgeTransferPackage =
  k_sourceSystem :: string
  k_targetSystem :: string
  k_challenges :: "SystemChallenge list"
  k_solutions :: "Solution list"
  k_learnings :: "Learning list"
  k_patterns :: "Pattern list"
  k_createdAt :: nat
  k_version :: string


section \<open>Learning Engine (class \<^verbatim>\<open>LearningEngine\<close>, \<^verbatim>\<open>src/unnamed/part_003\<close>)\<close>

text \<open>
  The engine's state: the pattern map and the learning history (the success threshold
  is the constant 0.7). Its two private lookups are written as the source has them,
  \<open>findChallengeById\<close> and \<open>findSolutionById\<close>; the methods that call them take the
  lookup as an argument (\<open>fc\<close>, \<open>fs\<close>), so that a statement can be made either about the
  source's lookups or about any lookup. A fresh pattern identifier
  (\<^verbatim>\<open>pattern_<time>_<random>\<close>) comes from the environment: \<open>mk\<close> gives the
  identifier generated for a group key.
\<close>

record LearningEngine =
  le_patterns :: "(string \<times> Pattern) list"
  le_learningHistory :: "Learning list"

definition successThreshold :: number where
  "successThreshold = Fin 0.7"

definition findChallengeById :: "string \<Rightarrow> SystemChallenge option" where
  "findChallengeById cid = None"

definition findSolutionById :: "string \<Rightarrow> Solution option" where
  "findSolutionById sid = None"

text \<open>
  \<^verbatim>\<open>Array.prototype.sort\<close> with a comparator, as a stable insertion sort: \<open>x\<close> moves behind
  \<open>y\<close> only when \<open>cmp x y > 0\<close> (a \<^verbatim>\<open>NaN\<close> result counts as 0). For a consistent
  comparator every stable sort gives this list; when \<^verbatim>\<open>NaN\<close> makes the comparator
  inconsistent the language leaves the order to the implementation.
\<close>

fun insertWith :: "('a \<Rightarrow> 'a \<Rightarrow> number) \<Rightarrow> 'a \<Rightarrow> 'a list \<Rightarrow> 'a list" where
  "insertWith cmp x [] = [x]"
| "insertWith cmp x (y # ys) =
     (if n_gt (cmp x y) (Fin 0) then y # insertWith cmp x ys else x # y # ys)"

definition sortWith :: "('a \<Rightarrow> 'a \<Rightarrow> number) \<Rightarrow> 'a list \<Rightarrow> 'a list" where
  "sortWith cmp xs = foldr (insertWith cmp) xs []"

text \<open>\<^verbatim>\<open>s.includes(sub)\<close>.\<close>

fun startsWith :: "string \<Rightarrow> string \<Rightarrow> bool" where
  "startsWith s [] = True"
| "startsWith [] (c # cs) = False"
| "startsWith (d # ds) (c # cs) = (d = c \<and> startsWith ds cs)"

fun str_includes :: "string \<Rightarrow> string \<Rightarrow> bool" where
  "str_includes [] sub = (sub = [])"
| "str_includes (d # ds) sub = (startsWith (d # ds) sub \<or> str_includes ds sub)"

definition calculateContextSimilarity ::
  "(string \<times> jsval) list \<Rightarrow> (string \<times> jsval) list \<Rightarrow> number" where
  "calculateContextSimilarity context1 context2 =
     (let keys1 = map fst context1;
          keys2 = map fst context2;
          commonKeys = filter (\<lambda>k. k \<in> set keys2) keys1
      in if commonKeys = [] then Fin 0
         else
           let similarity =
             foldl (\<lambda>sim key.
                 if strictEq (getProp context1 key) (getProp context2 key) then n_add sim (Fin 1)
                 else (case (getProp context1 key, getProp context2 key) of
                         (VNum a, VNum b) \<Rightarrow> n_add sim (n_div (n_min a b) (n_max a b))
                       | _ \<Rightarrow> sim))
               (Fin 0) commonKeys
           in n_div similarity (of_count (max (length keys1) (length keys2))))"

definition filterRelevantLearnings ::
  "(string \<Rightarrow> SystemChallenge option) \<Rightarrow> SystemChallenge \<Rightarrow> Learning list \<Rightarrow> Learning list" where
  "filterRelevantLearnings fc challenge learnings =
     filter (\<lambda>learning.
        case fc (l_challengeId learning) of
          None \<Rightarrow> False
        | Some relatedChallenge \<Rightarrow>
            if c_type relatedChallenge \<noteq> c_type challenge then False
            else n_gt (calculateContextSimilarity (c_context challenge)
                         (c_context relatedChallenge)) (Fin 0.6))
       learnings"

definition positive :: "number list \<Rightarrow> number list" where
  "positive vs = filter (\<lambda>v. n_gt v (Fin 0)) vs"

definition isPartialSuccessAcceptable :: "Learning \<Rightarrow> bool" where
  "isPartialSuccessAcceptable learning =
     n_gt (n_div (of_count (length (positive (map snd (l_metrics learning)))))
                 (of_count (length (l_metrics learning)))) (Fin 0.5)"

definition extractSuccessfulSolutions ::
  "(string \<Rightarrow> Solution option) \<Rightarrow> Learning list \<Rightarrow> Solution list" where
  "extractSuccessfulSolutions fs learnings =
     map snd
       (foldl (\<lambda>solutions learning.
           if l_outcome learning = Success \<or>
              (l_outcome learning = Partial \<and> isPartialSuccessAcceptable learning)
           then (case fs (l_solutionId learning) of
                   Some solution \<Rightarrow> AList.update (s_id solution) solution solutions
                 | None \<Rightarrow> solutions)
           else solutions)
         [] learnings)"

definition calculateSolutionSuccessRate :: "Solution \<Rightarrow> Learning list \<Rightarrow> number" where
  "calculateSolutionSuccessRate solution learnings =
     (let relevantLearnings = filter (\<lambda>l. l_solutionId l = s_id solution) learnings
      in if relevantLearnings = [] then s_confidence solution
         else n_div (of_count (length (filter (\<lambda>l. l_outcome l = Success) relevantLearnings)))
                    (of_count (length relevantLearnings)))"

definition findRelevantSolutions ::
  "(string \<Rightarrow> SystemChallenge option) \<Rightarrow> (string \<Rightarrow> Solution option) \<Rightarrow>
   SystemChallenge \<Rightarrow> Learning list \<Rightarrow> Solution list" where
  "findRelevantSolutions fc fs challenge learnings =
     (let relevantLearnings = filterRelevantLearnings fc challenge learnings;
          successfulSolutions = extractSuccessfulSolutions fs relevantLearnings
      in sortWith (\<lambda>a b. n_sub (calculateSolutionSuccessRate b relevantLearnings)
                              (calculateSolutionSuccessRate a relevantLearnings))
           successfulSolutions)"

definition isSimilarSolution :: "string \<Rightarrow> Solution \<Rightarrow> bool" where
  "isSimilarSolution solutionId solution = (solutionId = s_id solution)"

definition isSolutionRelatedToPattern :: "Solution \<Rightarrow> Pattern \<Rightarrow> bool" where
  "isSolutionRelatedToPattern solution pattern =
     (let solutionSteps = map es_action (im_steps (s_implementation solution));
          patternSteps = st_steps (p_solution pattern);
          commonSteps = filter (\<lambda>s. list_ex (\<lambda>ps. str_includes ps s \<or> str_includes s ps) patternSteps)
                          solutionSteps
      in n_gt (n_div (of_count (length commonSteps))
                     (of_count (max (length solutionSteps) (length patternSteps)))) (Fin 0.5))"

definition estimateSuccessRateFromPatterns ::
  "(string \<times> Pattern) list \<Rightarrow> Solution \<Rightarrow> number" where
  "estimateSuccessRateFromPatterns patterns solution =
     (let related = filter (isSolutionRelatedToPattern solution) (map snd patterns);
          totalRate = foldl (\<lambda>t p. n_add t (p_successRate p)) (Fin 0) related;
          count = length related
      in if 0 < count then n_div totalRate (of_count count) else Fin 0.5)"

definition calculateSuccessRate ::
  "(string \<times> Pattern) list \<Rightarrow> Solution \<Rightarrow> Learning list \<Rightarrow> number" where
  "calculateSuccessRate patterns solution learnings =
     (let relevantLearnings = filter (\<lambda>l. isSimilarSolution (l_solutionId l) solution) learnings
      in if relevantLearnings = [] then estimateSuccessRateFromPatterns patterns solution
         else
           let successCount = length (filter (\<lambda>l. l_outcome l = Success) relevantLearnings);
               partialSuccessCount = length (filter (\<lambda>l. l_outcome l = Partial) relevantLearnings);
               totalCount = length relevantLearnings
           in n_div (n_add (of_count successCount) (n_mul (of_count partialSuccessCount) (Fin 0.5)))
                    (of_count totalCount))"


subsection \<open>Pattern extraction\<close>

definition generateGroupKey :: "SystemChallenge \<Rightarrow> Learning \<Rightarrow> string" where
  "generateGroupKey challenge learning =
     typeName (c_type challenge) @ ''_'' @ severityName (c_severity challenge) @ ''_'' @
     outcomeName (l_outcome learning)"

definition groupSuccessfulLearnings ::
  "(string \<Rightarrow> SystemChallenge option) \<Rightarrow> Learning list \<Rightarrow> (string \<times> Learning list) list" where
  "groupSuccessfulLearnings fc learnings =
     foldl (\<lambda>groups learning.
         if l_outcome learning \<noteq> Success then groups
         else (case fc (l_challengeId learning) of
                 None \<Rightarrow> groups
               | Some challenge \<Rightarrow>
                   let key = generateGroupKey challenge learning in
                   (case map_of groups key of
                      None \<Rightarrow> groups @ [(key, [learning])]
                    | Some g \<Rightarrow> AList.update key (g @ [learning]) groups)))
       [] learnings"

fun operatorName :: "Operator \<Rightarrow> string" where
  "operatorName Op_gt = ''gt''"
| "operatorName Op_lt = ''lt''"
| "operatorName Op_eq = ''eq''"
| "operatorName Op_gte = ''gte''"
| "operatorName Op_lte = ''lte''"

definition deduplicateMetrics :: "MetricCondition list \<Rightarrow> MetricCondition list" where
  "deduplicateMetrics metrics =
     map snd
       (foldl (\<lambda>unique metric.
           let key = mc_metric metric @ ''_'' @ operatorName (mc_operator metric) in
           (case map_of unique key of
              None \<Rightarrow> unique @ [(key, metric)]
            | Some old \<Rightarrow>
                if n_gt (mc_value metric) (mc_value old) then AList.update key metric unique
                else unique))
         [] metrics)"

text \<open>The entries of \<^verbatim>\<open>challenge.context.metrics\<close> that are positive numbers.\<close>

definition contextMetricConditions :: "SystemChallenge \<Rightarrow> MetricCondition list" where
  "contextMetricConditions challenge =
     (case getProp (c_context challenge) ''metrics'' of
        VObj r entries \<Rightarrow>
          concat (map (\<lambda>(key, v).
              case v of
                VNum n \<Rightarrow>
                  if n_gt n (Fin 0)
                  then [\<lparr>mc_metric = key, mc_operator = Op_gt, mc_value = n_mul n (Fin 0.8),
                         mc_duration = Some (Fin 300)\<rparr>]
                  else []
              | _ \<Rightarrow> []) entries)
      | _ \<Rightarrow> [])"

definition extractCommonTrigger ::
  "(string \<Rightarrow> SystemChallenge option) \<Rightarrow> Learning list \<Rightarrow> TriggerCondition" where
  "extractCommonTrigger fc grp =
     (let metrics =
        concat (map (\<lambda>learning.
            case fc (l_challengeId learning) of
              None \<Rightarrow> []
            | Some challenge \<Rightarrow> contextMetricConditions challenge) grp)
      in \<lparr>t_metrics = deduplicateMetrics metrics, t_logs = [], t_events = [],
          t_combinator = C_AND\<rparr>)"

definition calculateLearningScore :: "Learning \<Rightarrow> number" where
  "calculateLearningScore learning =
     (let metricScore = foldl n_add (Fin 0) (positive (map snd (l_metrics learning)));
          outcomeScore =
            (if l_outcome learning = Success then Fin 100
             else if l_outcome learning = Partial then Fin 50 else Fin 0)
      in n_add metricScore outcomeScore)"

text \<open>
  \<^verbatim>\<open>group.reduce(...)\<close> without an initial value starts from the first member; the caller
  only passes groups of three or more, and the empty group (a \<^verbatim>\<open>TypeError\<close> in the
  source) yields no parameters here.
\<close>

definition extractCommonParameters ::
  "(string \<Rightarrow> Solution option) \<Rightarrow> Learning list \<Rightarrow> (string \<times> jsval) list" where
  "extractCommonParameters fs grp =
     (case grp of
        [] \<Rightarrow> []
      | first # others \<Rightarrow>
          let bestLearning =
                foldl (\<lambda>best current.
                    if n_gt (calculateLearningScore current) (calculateLearningScore best)
                    then current else best) first others
          in (case fs (l_solutionId bestLearning) of
                None \<Rightarrow> []
              | Some solution \<Rightarrow>
                  foldl (\<lambda>params step.
                      foldl (\<lambda>ps (k, v). AList.update k v ps) params (es_parameters step))
                    [] (im_steps (s_implementation solution))))"

definition improvementSuffix :: string where
  "improvementSuffix =
     [CHR 0xE3, CHR 0x81, CHR 0xAE, CHR 0xE6, CHR 0x94, CHR 0xB9, CHR 0xE5, CHR 0x96, CHR 0x84]"

definition problemSolved :: string where
  "problemSolved =
     [CHR 0xE5, CHR 0x95, CHR 0x8F, CHR 0xE9, CHR 0xA1, CHR 0x8C, CHR 0xE3, CHR 0x81, CHR 0xAE,
      CHR 0xE8, CHR 0xA7, CHR 0xA3, CHR 0xE6, CHR 0xB1, CHR 0xBA]"

definition autoPatternSuffix :: string where
  "autoPatternSuffix =
     [CHR 0xE3, CHR 0x81, CHR 0xAE, CHR 0xE8, CHR 0x87, CHR 0xAA, CHR 0xE5, CHR 0x8B, CHR 0x95,
      CHR 0xE8, CHR 0xA7, CHR 0xA3, CHR 0xE6, CHR 0xB1, CHR 0xBA, CHR 0xE3, CHR 0x83, CHR 0x91,
      CHR 0xE3, CHR 0x82, CHR 0xBF, CHR 0xE3, CHR 0x83, CHR 0xBC, CHR 0xE3, CHR 0x83, CHR 0xB3]"

definition extractExpectedOutcome :: "Learning list \<Rightarrow> string" where
  "extractExpectedOutcome grp =
     (let improvements =
            foldl (\<lambda>imp (key, v).
                if n_gt v (Fin 0)
                then AList.update key (n_add (case map_of imp key of
                                                None \<Rightarrow> Fin 0
                                              | Some c \<Rightarrow> (if n_falsy c then Fin 0 else c)) (Fin 1)) imp
                else imp)
              [] (concat (map l_metrics grp));
          sorted = sortWith (\<lambda>(ka, a) (kb, b). n_sub b a) improvements
      in (case sorted of
            [] \<Rightarrow> problemSolved
          | (key, c) # rest \<Rightarrow> key @ improvementSuffix))"

definition calculateGroupSuccessRate :: "Learning list \<Rightarrow> number" where
  "calculateGroupSuccessRate grp =
     (let totalImprovement =
            foldl (\<lambda>sum learning.
                n_add sum (foldl n_add (Fin 0) (positive (map snd (l_metrics learning)))))
              (Fin 0) grp
      in n_min (n_div totalImprovement (n_mul (of_count (length grp)) (Fin 100))) (Fin 1))"

definition createPatternFromGroup ::
  "(string \<Rightarrow> SystemChallenge option) \<Rightarrow> (string \<Rightarrow> Solution option) \<Rightarrow> string \<Rightarrow>
   string \<Rightarrow> Learning list \<Rightarrow> Pattern option" where
  "createPatternFromGroup fc fs newId key grp =
     (case grp of
        [] \<Rightarrow> None
      | firstLearning # others \<Rightarrow>
          (case (fc (l_challengeId firstLearning), fs (l_solutionId firstLearning)) of
             (Some challenge, Some solution) \<Rightarrow>
               Some \<lparr>p_id = newId,
                     p_name = typeName (c_type challenge) @ autoPatternSuffix,
                     p_description = s_description solution,
                     p_trigger = extractCommonTrigger fc grp,
                     p_solution =
                       \<lparr>st_name = s_title solution,
                        st_steps = map es_action (im_steps (s_implementation solution)),
                        st_parameters = extractCommonParameters fs grp,
                        st_expectedOutcome = extractExpectedOutcome grp\<rparr>,
                     p_successRate = calculateGroupSuccessRate grp,
                     p_usageCount = of_count (length grp)\<rparr>
           | _ \<Rightarrow> None))"

subsection \<open>Pattern statistics\<close>

text \<open>One case of the \<^verbatim>\<open>switch\<close> in \<open>matchesPatternTrigger\<close>: False where it returns false.\<close>

fun operatorAdmits :: "Operator \<Rightarrow> number \<Rightarrow> number \<Rightarrow> bool" where
  "operatorAdmits Op_gt v bound = (\<not> n_le v bound)"
| "operatorAdmits Op_lt v bound = (\<not> n_ge v bound)"
| "operatorAdmits Op_eq v bound = n_eq v bound"
| "operatorAdmits Op_gte v bound = (\<not> n_lt v bound)"
| "operatorAdmits Op_lte v bound = (\<not> n_gt v bound)"

fun metricsAdmit :: "(string \<times> jsval) list \<Rightarrow> MetricCondition list \<Rightarrow> bool" where
  "metricsAdmit ctx [] = True"
| "metricsAdmit ctx (metric # rest) =
     (case getProp ctx (mc_metric metric) of
        VNum v \<Rightarrow>
          (if operatorAdmits (mc_operator metric) v (mc_value metric) then metricsAdmit ctx rest
           else False)
      | _ \<Rightarrow> False)"

definition matchesPatternTrigger :: "SystemChallenge \<Rightarrow> TriggerCondition \<Rightarrow> bool" where
  "matchesPatternTrigger challenge trigger =
     (if 0 < length (t_metrics trigger) then metricsAdmit (c_context challenge) (t_metrics trigger)
      else True)"

definition findRelatedPatterns ::
  "(string \<Rightarrow> SystemChallenge option) \<Rightarrow> (string \<times> Pattern) list \<Rightarrow> Learning \<Rightarrow> Pattern list" where
  "findRelatedPatterns fc patterns learning =
     (case fc (l_challengeId learning) of
        None \<Rightarrow> []
      | Some challenge \<Rightarrow>
          filter (\<lambda>pattern. matchesPatternTrigger challenge (p_trigger pattern))
            (map snd patterns))"

text \<open>
  The loops \<^verbatim>\<open>for (const pattern of relatedPatterns) { pattern.f = ... }\<close> assign to the
  pattern objects the map holds: every entry of the map whose pattern is among the
  related ones is replaced by its updated pattern.
\<close>

definition forRelated ::
  "(Pattern \<Rightarrow> Pattern) \<Rightarrow> Pattern list \<Rightarrow> (string \<times> Pattern) list \<Rightarrow> (string \<times> Pattern) list" where
  "forRelated f relatedPatterns patterns =
     map (\<lambda>(k, pattern). if pattern \<in> set relatedPatterns then (k, f pattern) else (k, pattern))
       patterns"

definition reweigh :: "Learning \<Rightarrow> Pattern \<Rightarrow> Pattern" where
  "reweigh learning pattern =
     (let weight = Fin 0.1;
          newSuccessValue = (if l_outcome learning = Success then Fin 1 else Fin 0)
      in pattern\<lparr>p_successRate :=
           n_add (n_mul (p_successRate pattern) (n_sub (Fin 1) weight))
                 (n_mul newSuccessValue weight)\<rparr>)"

definition updateExistingPatterns ::
  "(string \<Rightarrow> SystemChallenge option) \<Rightarrow> (string \<times> Pattern) list \<Rightarrow> Learning list \<Rightarrow>
   (string \<times> Pattern) list" where
  "updateExistingPatterns fc patterns learnings =
     foldl (\<lambda>ps learning. forRelated (reweigh learning) (findRelatedPatterns fc ps learning) ps)
       patterns learnings"

text \<open>
  The patterns \<open>extractPatterns\<close> returns are the objects it has just put in the map, so
  the later \<open>updateExistingPatterns\<close> shows in the returned list too, except on an
  object that a later new pattern of the same identifier has displaced from the map.
\<close>

fun resync :: "(string \<times> Pattern) list \<Rightarrow> Pattern list \<Rightarrow> Pattern list" where
  "resync m [] = []"
| "resync m (p # ps) =
     (if p_id p \<in> set (map p_id ps) then p
      else (case map_of m (p_id p) of Some q \<Rightarrow> q | None \<Rightarrow> p)) # resync m ps"

definition extractPatterns ::
  "(string \<Rightarrow> SystemChallenge option) \<Rightarrow> (string \<Rightarrow> Solution option) \<Rightarrow> (string \<Rightarrow> string) \<Rightarrow>
   LearningEngine \<Rightarrow> Learning list \<Rightarrow> Pattern list \<times> LearningEngine" where
  "extractPatterns fc fs mk eng learnings =
     (let successGroups = groupSuccessfulLearnings fc learnings;
          (newPatterns, patterns1) =
            foldl (\<lambda>(new, ps) (key, grp).
                if 3 \<le> length grp
                then (case createPatternFromGroup fc fs (mk key) key grp of
                        Some pattern \<Rightarrow>
                          if n_ge (p_successRate pattern) successThreshold
                          then (new @ [pattern], AList.update (p_id pattern) pattern ps)
                          else (new, ps)
                      | None \<Rightarrow> (new, ps))
                else (new, ps))
              ([], le_patterns eng) successGroups;
          patterns2 = updateExistingPatterns fc patterns1 learnings
      in (resync patterns2 newPatterns, eng\<lparr>le_patterns := patterns2\<rparr>))"

definition reinforce :: "Learning \<Rightarrow> Pattern \<Rightarrow> Pattern" where
  "reinforce learning pattern =
     (let rated =
        (if l_outcome learning = Success
         then pattern\<lparr>p_successRate :=
                n_div (n_add (n_mul (p_successRate pattern) (p_usageCount pattern)) (Fin 1))
                      (n_add (p_usageCount pattern) (Fin 1))\<rparr>
         else if l_outcome learning = Failure
         then pattern\<lparr>p_successRate :=
                n_div (n_mul (p_successRate pattern) (p_usageCount pattern))
                      (n_add (p_usageCount pattern) (Fin 1))\<rparr>
         else pattern)
      in rated\<lparr>p_usageCount := n_add (p_usageCount pattern) (Fin 1)\<rparr>)"

definition updateKnowledge ::
  "(string \<Rightarrow> SystemChallenge option) \<Rightarrow> (string \<Rightarrow> Solution option) \<Rightarrow> (string \<Rightarrow> string) \<Rightarrow>
   LearningEngine \<Rightarrow> Learning \<Rightarrow> LearningEngine" where
  "updateKnowledge fc fs mk eng learning =
     (let history = le_learningHistory eng @ [learning];
          relatedPatterns = findRelatedPatterns fc (le_patterns eng) learning;
          eng1 = eng\<lparr>le_learningHistory := history,
                     le_patterns := forRelated (reinforce learning) relatedPatterns (le_patterns eng)\<rparr>
      in if length history mod 10 = 0
         then snd (extractPatterns fc fs mk eng1 (drop (length history - 50) history))
         else eng1)"

section \<open>Solution Generator (\<^verbatim>\<open>src/src/generators/SolutionGenerator.ts\<close>)\<close>

text \<open>
  The two constructors of pattern-based and template-based solutions. The identifier
  (\<^verbatim>\<open>generateSolutionId\<close>: time and a random suffix) and the creation time come from
  the environment. A template is the object \<open>initializeTemplates\<close> stores: a title and
  steps of action, target and parameters.
\<close>

record TemplateStep =
  ts_action :: string
  ts_target :: string
  ts_parameters :: "(string \<times> jsval) list"

record Template =
  tp_title :: string
  tp_steps :: "TemplateStep list"

text \<open>\<^verbatim>\<open>xs.map((x, index) => f(x, index + 1))\<close>.\<close>

definition mapIndexed :: "('a \<Rightarrow> nat \<Rightarrow> 'b) \<Rightarrow> 'a list \<Rightarrow> 'b list" where
  "mapIndexed f xs = map (\<lambda>(x, i). f x (Suc i)) (zip xs [0 ..< length xs])"

definition createSolutionFromPattern ::
  "string \<Rightarrow> nat \<Rightarrow> SystemChallenge \<Rightarrow> Pattern \<Rightarrow> Solution" where
  "createSolutionFromPattern newId now challenge pattern =
     \<lparr>s_id = newId,
      s_challengeId = c_id challenge,
      s_title = st_name (p_solution pattern),
      s_description = p_description pattern,
      s_implementation =
        \<lparr>im_type = I_process,
         im_steps =
           mapIndexed (\<lambda>step order.
               \<lparr>es_order = of_count order,
                es_action = ''execute'',
                es_target = ''pattern-step'',
                es_parameters =
                  foldl (\<lambda>ps (k, v). AList.update k v ps) [(''step'', VStr step)]
                    (st_parameters (p_solution pattern)),
                es_validation = []\<rparr>)
             (st_steps (p_solution pattern)),
         im_rollbackPlan = [],
         im_estimatedDuration = Fin 30\<rparr>,
      s_confidence = p_successRate pattern,
      s_estimatedImpact =
        \<lparr>i_performance = Fin 20, i_reliability = Fin 20, i_userExperience = Fin 20,
         i_cost = Fin 0, i_security = Fin 0\<rparr>,
      s_prerequisites = [],
      s_risks = [],
      s_createdAt = now,
      s_executionTime = None\<rparr>"

definition createSolutionFromTemplate ::
  "string \<Rightarrow> nat \<Rightarrow> SystemChallenge \<Rightarrow> Template \<Rightarrow> Solution" where
  "createSolutionFromTemplate newId now challenge template =
     \<lparr>s_id = newId,
      s_challengeId = c_id challenge,
      s_title = tp_title template,
      s_description = ''Template-based solution for '' @ typeName (c_type challenge),
      s_implementation =
        \<lparr>im_type = I_code,
         im_steps =
           mapIndexed (\<lambda>step order.
               \<lparr>es_order = of_count order,
                es_action = ts_action step,
                es_target = ts_target step,
                es_parameters = ts_parameters step,
                es_validation = []\<rparr>)
             (tp_steps template),
         im_rollbackPlan = [],
         im_estimatedDuration = Fin 20\<rparr>,
      s_confidence = Fin 0.7,
      s_estimatedImpact =
        \<lparr>i_performance = Fin 25, i_reliability = Fin 25, i_userExperience = Fin 25,
         i_cost = Fin 0, i_security = Fin 0\<rparr>,
      s_prerequisites = [],
      s_risks = [],
      s_createdAt = now,
      s_executionTime = None\<rparr>"

section \<open>Knowledge Transfer (class \<^verbatim>\<open>KnowledgeTransfer\<close>, \<^verbatim>\<open>src/src/transfer/KnowledgeTransfer.ts\<close>)\<close>

text \<open>
  The receiving side. Its local state is the transfer history, the endpoint table, the
  compatibility version and the documents it has written under
  \<^verbatim>\<open>./knowledge-base\<close>. A document is modelled by the value that is serialized, at the
  path built from the record's identifier (\<^verbatim>\<open>path.join\<close>'s normalisation of an
  identifier that itself holds path separators is left out). Whether a write fails is
  the environment's: \<open>writeFails path\<close>.
\<close>

datatype error =
  IncompatibleVersion string
| NotFound
| WriteFailed string
| Thrown string

record TransferMetadata =
  tm_transferred :: bool
  tm_transferDate :: nat
  tm_originalSystem :: string

datatype document =
  PatternDoc Pattern
| SolutionDoc Solution
| LearningDoc Learning "TransferMetadata option"
| ChallengeDoc SystemChallenge

record KnowledgeTransfer =
  kt_transferHistory :: "(string \<times> KnowledgeTransferPackage list) list"
  kt_knowledgeEndpoints :: "(string \<times> string) list"
  kt_compatibilityVersion :: string
  kt_files :: "(string \<times> document) list"

definition initialTransfer :: KnowledgeTransfer where
  "initialTransfer =
     \<lparr>kt_transferHistory = [],
      kt_knowledgeEndpoints =
        [(''example-video-system'', ''http://localhost:5000/api/self-evolution''),
         (''example-system'', ''http://localhost:3001/api/self-evolution'')],
      kt_compatibilityVersion = ''1.0.0'',
      kt_files = []\<rparr>"

text \<open>\<^verbatim>\<open>s.split(sep)[0]\<close>: the text before the first separator.\<close>

definition firstComponent :: "char \<Rightarrow> string \<Rightarrow> string" where
  "firstComponent sep s = takeWhile (\<lambda>c. c \<noteq> sep) s"

definition isVersionCompatible :: "KnowledgeTransfer \<Rightarrow> string \<Rightarrow> bool" where
  "isVersionCompatible kt version =
     (let major = firstComponent CHR ''.'' version;
          currentMajor = firstComponent CHR ''.'' (kt_compatibilityVersion kt)
      in major = currentMajor)"

definition findSimilarPattern :: "KnowledgeTransfer \<Rightarrow> Pattern \<Rightarrow> Pattern option" where
  "findSimilarPattern kt pattern = None"

definition writeFile ::
  "(string \<Rightarrow> bool) \<Rightarrow> string \<Rightarrow> document \<Rightarrow> KnowledgeTransfer \<Rightarrow> error + KnowledgeTransfer" where
  "writeFile writeFails path doc kt =
     (if writeFails path then Inl (WriteFailed path)
      else Inr (kt\<lparr>kt_files := AList.update path doc (kt_files kt)\<rparr>))"

definition savePattern ::
  "(string \<Rightarrow> bool) \<Rightarrow> Pattern \<Rightarrow> KnowledgeTransfer \<Rightarrow> error + KnowledgeTransfer" where
  "savePattern writeFails pattern kt =
     writeFile writeFails (''knowledge-base/patterns/'' @ p_id pattern @ ''.json'')
       (PatternDoc pattern) kt"

definition saveSolution ::
  "(string \<Rightarrow> bool) \<Rightarrow> Solution \<Rightarrow> KnowledgeTransfer \<Rightarrow> error + KnowledgeTransfer" where
  "saveSolution writeFails solution kt =
     writeFile writeFails (''knowledge-base/solutions/'' @ s_id solution @ ''.json'')
       (SolutionDoc solution) kt"

definition saveTransferredLearning ::
  "(string \<Rightarrow> bool) \<Rightarrow> Learning \<Rightarrow> TransferMetadata \<Rightarrow> KnowledgeTransfer \<Rightarrow>
   error + KnowledgeTransfer" where
  "saveTransferredLearning writeFails learning metadata kt =
     writeFile writeFails (''knowledge-base/learnings/'' @ l_id learning @ ''.json'')
       (LearningDoc learning (Some metadata)) kt"

text \<open>A loop of awaited steps: the first failure ends it, with the writes made so far.\<close>

fun forEachM ::
  "('a \<Rightarrow> 's \<Rightarrow> error + 's) \<Rightarrow> 'a list \<Rightarrow> 's \<Rightarrow> error option \<times> 's" where
  "forEachM f [] st = (None, st)"
| "forEachM f (x # xs) st =
     (case f x st of Inl e \<Rightarrow> (Some e, st) | Inr st' \<Rightarrow> forEachM f xs st')"

text \<open>
  \<open>findSimilarPattern\<close> has no store to search and returns \<^verbatim>\<open>null\<close>; were it to return
  a pattern, the source would average into that object, which no state of this class
  holds.
\<close>

definition integratePatterns ::
  "(string \<Rightarrow> bool) \<Rightarrow> Pattern list \<Rightarrow> KnowledgeTransfer \<Rightarrow> error option \<times> KnowledgeTransfer" where
  "integratePatterns writeFails patterns kt =
     forEachM (\<lambda>pattern k.
         case findSimilarPattern k pattern of
           Some existingPattern \<Rightarrow> Inr k
         | None \<Rightarrow> savePattern writeFails pattern k)
       patterns kt"

definition adaptSolutionToLocal :: "Solution \<Rightarrow> Solution" where
  "adaptSolutionToLocal solution =
     solution\<lparr>s_id := ''adapted_'' @ s_id solution,
              s_confidence := n_mul (s_confidence solution) (Fin 0.9)\<rparr>"

definition adaptSolutions ::
  "(string \<Rightarrow> bool) \<Rightarrow> Solution list \<Rightarrow> KnowledgeTransfer \<Rightarrow> error option \<times> KnowledgeTransfer" where
  "adaptSolutions writeFails solutions kt =
     forEachM (\<lambda>solution k. saveSolution writeFails (adaptSolutionToLocal solution) k)
       solutions kt"

definition recordTransferredLearnings ::
  "(string \<Rightarrow> bool) \<Rightarrow> nat \<Rightarrow> Learning list \<Rightarrow> KnowledgeTransfer \<Rightarrow>
   error option \<times> KnowledgeTransfer" where
  "recordTransferredLearnings writeFails now learnings kt =
     forEachM (\<lambda>learning k.
         saveTransferredLearning writeFails learning
           \<lparr>tm_transferred = True, tm_transferDate = now,
            tm_originalSystem = firstComponent CHR ''_'' (l_id learning)\<rparr> k)
       learnings kt"

definition integrateKnowledge ::
  "(string \<Rightarrow> bool) \<Rightarrow> nat \<Rightarrow> KnowledgeTransferPackage \<Rightarrow> KnowledgeTransfer \<Rightarrow>
   error option \<times> KnowledgeTransfer" where
  "integrateKnowledge writeFails now knowledgePackage kt =
     (case integratePatterns writeFails (k_patterns knowledgePackage) kt of
        (Some e, kt1) \<Rightarrow> (Some e, kt1)
      | (None, kt1) \<Rightarrow>
          (case adaptSolutions writeFails (k_solutions knowledgePackage) kt1 of
             (Some e, kt2) \<Rightarrow> (Some e, kt2)
           | (None, kt2) \<Rightarrow>
               recordTransferredLearnings writeFails now (k_learnings knowledgePackage) kt2))"

text \<open>
  \<open>receivePackage\<close> returns the error the promise rejects with (None when it resolves)
  and the local state it leaves.
\<close>

definition receivePackage ::
  "(string \<Rightarrow> bool) \<Rightarrow> nat \<Rightarrow> KnowledgeTransferPackage \<Rightarrow> KnowledgeTransfer \<Rightarrow>
   error option \<times> KnowledgeTransfer" where
  "receivePackage writeFails now knowledgePackage kt =
     (if \<not> isVersionCompatible kt (k_version knowledgePackage)
      then (Some (IncompatibleVersion (k_version knowledgePackage)), kt)
      else integrateKnowledge writeFails now knowledgePackage kt)"

section \<open>Challenge Controller and Execution Engine (class \<^verbatim>\<open>SelfEvolutionSystem\<close>)\<close>

subsection \<open>Similarity of descriptions\<close>

text \<open>
  Strings are byte strings: \<open>toLowerCase\<close> lowers the ASCII letters and \<open>isSpace\<close> is
  the ASCII part of the regular expression's \<^verbatim>\<open>\s\<close>. \<open>splitWs\<close> is
  \<^verbatim>\<open>s.split(/\s+/)\<close>: a run of white space separates two pieces, so that white space at
  either end leaves an empty piece there and the empty string gives one empty piece.
\<close>

definition lowerChar :: "char \<Rightarrow> char" where
  "lowerChar c =
     (case map_of (zip ''ABCDEFGHIJKLMNOPQRSTUVWXYZ'' ''abcdefghijklmnopqrstuvwxyz'') c of
        Some d \<Rightarrow> d | None \<Rightarrow> c)"

definition toLowerCase :: "string \<Rightarrow> string" where
  "toLowerCase s = map lowerChar s"

definition isSpace :: "char \<Rightarrow> bool" where
  "isSpace c = (c \<in> set [CHR 0x09, CHR 0x0A, CHR 0x0B, CHR 0x0C, CHR 0x0D, CHR '' ''])"

fun splitFrom :: "bool \<Rightarrow> string \<Rightarrow> string \<Rightarrow> string list" where
  "splitFrom inSpace cur [] = [rev cur]"
| "splitFrom inSpace cur (c # cs) =
     (if isSpace c
      then (if inSpace then splitFrom True cur cs else rev cur # splitFrom True [] cs)
      else splitFrom False (c # cur) cs)"

definition splitWs :: "string \<Rightarrow> string list" where
  "splitWs s = splitFrom False [] s"

text \<open>\<^verbatim>\<open>new Set(xs)\<close> in insertion order: the first occurrence of each element.\<close>

definition newSet :: "'a list \<Rightarrow> 'a list" where
  "newSet xs = rev (remdups (rev xs))"

definition calculateSimilarity :: "string \<Rightarrow> string \<Rightarrow> number" where
  "calculateSimilarity str1 str2 =
     (let words1 = splitWs (toLowerCase str1);
          words2 = splitWs (toLowerCase str2);
          set1 = newSet words1;
          set2 = newSet words2;
          intersection = newSet (filter (\<lambda>x. x \<in> set set2) set1);
          union = newSet (set1 @ set2)
      in n_div (of_count (length intersection)) (of_count (length union)))"

subsection \<open>State\<close>

text \<open>
  An emitted event is logged with a snapshot of its payload and of the learning history
  as it stands when the listeners run (they run inside \<^verbatim>\<open>emit\<close>).
\<close>

datatype event =
  ChallengeRecorded SystemChallenge
| ChallengeAnalyzing SystemChallenge
| ChallengeReady SystemChallenge "Solution list"
| ChallengeFailed SystemChallenge error
| SolutionExecuting SystemChallenge Solution
| SolutionCompleted SystemChallenge Solution Learning

record Controller =
  ctl_challenges :: "(string \<times> SystemChallenge) list"
  ctl_solutions :: "(string \<times> Solution list) list"
  ctl_learnings :: "Learning list"
  ctl_learningEngine :: LearningEngine
  ctl_isRunning :: bool
  ctl_executionQueue :: "string list"
  ctl_emitted :: "(event \<times> Learning list) list"
  ctl_files :: "(string \<times> document) list"

definition emit :: "event \<Rightarrow> Controller \<Rightarrow> Controller" where
  "emit e st = st\<lparr>ctl_emitted := ctl_emitted st @ [(e, ctl_learnings st)]\<rparr>"

text \<open>
  A \<^verbatim>\<open>Partial<SystemChallenge>\<close>: every field may be absent. (A field present with the
  value \<^verbatim>\<open>undefined\<close> is not modelled.)
\<close>

record PartialChallenge =
  pc_id :: "string option"
  pc_type :: "ChallengeType option"
  pc_severity :: "Severity option"
  pc_description :: "string option"
  pc_detectedAt :: "nat option"
  pc_context :: "(string \<times> jsval) list option"
  pc_proposedSolutions :: "Solution list option"
  pc_status :: "ChallengeStatus option"
  pc_learnings :: "Learning list option"
  pc_source :: "ChallengeSource option"

text \<open>\<^verbatim>\<open>challenge.description || ''\<close>.\<close>

definition descriptionOf :: "PartialChallenge \<Rightarrow> string" where
  "descriptionOf p = (case pc_description p of None \<Rightarrow> [] | Some d \<Rightarrow> d)"

subsection \<open>Recording a challenge\<close>

text \<open>The first entry of the map, in insertion order, that the loop returns.\<close>

definition findSimilarChallenge ::
  "Controller \<Rightarrow> PartialChallenge \<Rightarrow> (string \<times> SystemChallenge) option" where
  "findSimilarChallenge st challenge =
     find (\<lambda>(k, existing).
         Some (c_type existing) = pc_type challenge \<and>
         c_status existing \<noteq> Resolved \<and>
         n_gt (calculateSimilarity (c_description existing) (descriptionOf challenge)) (Fin 0.8))
       (ctl_challenges st)"

text \<open>
  What the environment supplies to one call of \<open>recordChallenge\<close>: the generated
  identifier (a hash of description and time), the time, the reference of the new
  \<^verbatim>\<open>Date\<close> object and how a \<^verbatim>\<open>Date\<close> prints.
\<close>

record RecordEnv =
  re_newId :: string
  re_now :: nat
  re_dateRef :: nat
  re_dateString :: "nat \<Rightarrow> string"

text \<open>
  \<^verbatim>\<open>(occurrences || 1) + 1\<close> on a value of type \<^verbatim>\<open>any\<close>: a number is incremented, a
  falsy value counts as 1, and \<^verbatim>\<open>+\<close> concatenates on a string or an object.
\<close>

definition nextOccurrences :: "(nat \<Rightarrow> string) \<Rightarrow> jsval \<Rightarrow> jsval" where
  "nextOccurrences dateString v =
     (if \<not> truthy v then VNum (Fin 2)
      else (case v of
              VNum n \<Rightarrow> VNum (n_add n (Fin 1))
            | VBool b \<Rightarrow> VNum (Fin 2)
            | VStr s \<Rightarrow> VStr (s @ ''1'')
            | VDate r t \<Rightarrow> VStr (dateString t @ ''1'')
            | _ \<Rightarrow> VStr ''[object Object]1''))"

definition noteOccurrence :: "RecordEnv \<Rightarrow> SystemChallenge \<Rightarrow> SystemChallenge" where
  "noteOccurrence env existing =
     existing\<lparr>c_context :=
       AList.update ''lastOccurred'' (VDate (re_dateRef env) (re_now env))
         (AList.update ''occurrences''
            (nextOccurrences (re_dateString env) (getProp (c_context existing) ''occurrences''))
            (c_context existing))\<rparr>"

definition orElse :: "'a option \<Rightarrow> 'a \<Rightarrow> 'a" where
  "orElse x d = (case x of None \<Rightarrow> d | Some v \<Rightarrow> v)"

definition fullChallenge :: "RecordEnv \<Rightarrow> PartialChallenge \<Rightarrow> SystemChallenge" where
  "fullChallenge env challenge =
     \<lparr>c_id = orElse (pc_id challenge) (re_newId env),
      c_type = orElse (pc_type challenge) T_error,
      c_severity = orElse (pc_severity challenge) S_medium,
      c_description = orElse (pc_description challenge) [],
      c_detectedAt = orElse (pc_detectedAt challenge) (re_now env),
      c_context = orElse (pc_context challenge) [],
      c_proposedSolutions = orElse (pc_proposedSolutions challenge) [],
      c_status = orElse (pc_status challenge) Pending,
      c_learnings = orElse (pc_learnings challenge) [],
      c_source = orElse (pc_source challenge) Src_auto\<rparr>"

definition saveChallenge :: "SystemChallenge \<Rightarrow> Controller \<Rightarrow> Controller" where
  "saveChallenge challenge st =
     st\<lparr>ctl_files := AList.update (''challenges/'' @ c_id challenge @ ''.json'')
                    (ChallengeDoc challenge) (ctl_files st)\<rparr>"

text \<open>
  \<open>analyzeChallenge\<close> is asynchronous. Its part before the first \<^verbatim>\<open>await\<close> runs inside
  the caller: the status becomes \<^verbatim>\<open>analyzing\<close> and the event is emitted.
\<close>

definition analyzeChallenge_begin :: "string \<Rightarrow> Controller \<Rightarrow> Controller" where
  "analyzeChallenge_begin challengeId st =
     (case map_of (ctl_challenges st) challengeId of
        None \<Rightarrow> st
      | Some challenge \<Rightarrow>
          let challenge' = challenge\<lparr>c_status := Analyzing\<rparr> in
          emit (ChallengeAnalyzing challenge')
            (st\<lparr>ctl_challenges := AList.update challengeId challenge' (ctl_challenges st)\<rparr>))"

text \<open>
  \<open>recordChallenge\<close> returns the identifier and the state when the call returns. The
  document written is the challenge as serialized at that moment; the write itself is
  not awaited and its failure is not modelled.
\<close>

definition recordChallenge ::
  "RecordEnv \<Rightarrow> PartialChallenge \<Rightarrow> Controller \<Rightarrow> string \<times> Controller" where
  "recordChallenge env challenge st =
     (case findSimilarChallenge st challenge of
        Some (k, existingChallenge) \<Rightarrow>
          (c_id existingChallenge,
           st\<lparr>ctl_challenges := AList.update k (noteOccurrence env existingChallenge) (ctl_challenges st)\<rparr>)
      | None \<Rightarrow>
          let newId = re_newId env;
              new = fullChallenge env challenge;
              st1 = emit (ChallengeRecorded new)
                      (st\<lparr>ctl_challenges := AList.update newId new (ctl_challenges st)\<rparr>);
              st2 = analyzeChallenge_begin newId st1
          in (newId, saveChallenge (new\<lparr>c_status := Analyzing\<rparr>) st2))"

subsection \<open>Evaluation and the automatic-execution gate\<close>

definition impactWeight :: "RiskImpact \<Rightarrow> number" where
  "impactWeight impact =
     (if impact = R_high then Fin 1 else if impact = R_medium then Fin 0.5 else Fin 0.2)"

definition calculateRiskScore :: "Solution \<Rightarrow> number" where
  "calculateRiskScore solution =
     (let riskScore =
            foldl (\<lambda>score risk. n_add score (n_mul (r_probability risk) (impactWeight (r_impact risk))))
              (Fin 0) (s_risks solution)
      in n_min (n_div riskScore (of_count (length (s_risks solution)))) (Fin 1))"

text \<open>The body of the \<^verbatim>\<open>map\<close> callback of \<open>evaluateSolutions\<close>, for one solution.\<close>

definition evaluateSolution :: "Controller \<Rightarrow> Solution \<Rightarrow> Solution" where
  "evaluateSolution st solution =
     (let historicalSuccess =
            calculateSuccessRate (le_patterns (ctl_learningEngine st)) solution (ctl_learnings st);
          riskScore = calculateRiskScore solution
      in solution\<lparr>s_confidence :=
           n_add (n_mul historicalSuccess (Fin 0.7)) (n_mul (n_sub (Fin 1) riskScore) (Fin 0.3))\<rparr>)"

definition evaluateSolutions :: "Controller \<Rightarrow> SystemChallenge \<Rightarrow> Solution list \<Rightarrow> Solution list" where
  "evaluateSolutions st challenge sols =
     sortWith (\<lambda>a b. n_sub (s_confidence b) (s_confidence a)) (map (evaluateSolution st) sols)"

definition shouldAutoExecute :: "Controller \<Rightarrow> SystemChallenge \<Rightarrow> Solution \<Rightarrow> bool" where
  "shouldAutoExecute st challenge solution =
     (n_gt (s_confidence solution) (Fin 0.8) \<and>
      c_severity challenge \<noteq> S_critical \<and>
      list_all (\<lambda>r. r_impact r \<noteq> R_high) (s_risks solution) \<and>
      ctl_isRunning st)"

definition setChallenge :: "string \<Rightarrow> SystemChallenge \<Rightarrow> Controller \<Rightarrow> Controller" where
  "setChallenge k challenge st =
     st\<lparr>ctl_challenges := AList.update k challenge (ctl_challenges st)\<rparr>"

definition failAnalysis :: "string \<Rightarrow> SystemChallenge \<Rightarrow> error \<Rightarrow> Controller \<Rightarrow> Controller" where
  "failAnalysis k challenge e st =
     (let failed = challenge\<lparr>c_status := Failed\<rparr>
      in emit (ChallengeFailed failed e) (setChallenge k failed st))"

text \<open>
  The rest of \<open>analyzeChallenge\<close>, run in one piece (no other event is interleaved at
  its \<^verbatim>\<open>await\<close>s). The Solution Generator's \<open>generate\<close> is the argument \<open>gen\<close>: the
  candidates it returns, or the error it throws. Reading the confidence of the top
  candidate of an empty ranking is a \<^verbatim>\<open>TypeError\<close>, caught like any other failure. The
  function ends when the identifier is pushed on the queue; draining the queue is
  \<open>processExecutionQueue\<close>.
\<close>

definition analyzeChallenge_finish ::
  "(SystemChallenge \<Rightarrow> Solution list \<Rightarrow> error + Solution list) \<Rightarrow> string \<Rightarrow> Controller \<Rightarrow> Controller" where
  "analyzeChallenge_finish gen challengeId st =
     (case map_of (ctl_challenges st) challengeId of
        None \<Rightarrow> st
      | Some challenge \<Rightarrow>
          let historicalSolutions =
                findRelevantSolutions findChallengeById findSolutionById challenge (ctl_learnings st)
          in (case gen challenge historicalSolutions of
                Inl e \<Rightarrow> failAnalysis challengeId challenge e st
              | Inr generatedSolutions \<Rightarrow>
                  let rankedSolutions = evaluateSolutions st challenge generatedSolutions;
                      ready = challenge\<lparr>c_proposedSolutions := rankedSolutions, c_status := Ready\<rparr>;
                      st1 = emit (ChallengeReady ready rankedSolutions)
                              ((setChallenge challengeId ready st)
                                 \<lparr>ctl_solutions :=
                                    AList.update challengeId rankedSolutions (ctl_solutions st)\<rparr>)
                  in (case rankedSolutions of
                        [] \<Rightarrow> failAnalysis challengeId ready
                                (Thrown ''Cannot read properties of undefined'') st1
                      | best # rest \<Rightarrow>
                          if shouldAutoExecute st1 ready best
                          then st1\<lparr>ctl_executionQueue := ctl_executionQueue st1 @ [challengeId]\<rparr>
                          else st1)))"

definition analyzeChallenge ::
  "(SystemChallenge \<Rightarrow> Solution list \<Rightarrow> error + Solution list) \<Rightarrow> string \<Rightarrow> Controller \<Rightarrow> Controller" where
  "analyzeChallenge gen challengeId st =
     analyzeChallenge_finish gen challengeId (analyzeChallenge_begin challengeId st)"

subsection \<open>Executing a solution\<close>

definition calculateImprovement :: "SystemMetrics \<Rightarrow> SystemMetrics \<Rightarrow> (string \<times> number) list" where
  "calculateImprovement before after =
     [(''cpuImprovement'',
         n_mul (n_div (n_sub (m_cpu before) (m_cpu after)) (m_cpu before)) (Fin 100)),
      (''memoryImprovement'',
         n_mul (n_div (n_sub (m_memory before) (m_memory after)) (m_memory before)) (Fin 100)),
      (''responseTimeImprovement'',
         n_mul (n_div (n_sub (m_responseTime before) (m_responseTime after)) (m_responseTime before))
           (Fin 100)),
      (''errorRateImprovement'',
         n_mul (n_div (n_sub (m_errorRate before) (m_errorRate after))
                  (n_max (m_errorRate before) (Fin 0.1))) (Fin 100))]"

definition isSuccessful :: "(string \<times> number) list \<Rightarrow> Impact \<Rightarrow> bool" where
  "isSuccessful metrics expectedImpact =
     (let improvements = filter (\<lambda>v. n_gt v (Fin 0)) (map snd metrics)
      in 0 < length improvements \<and> list_ex (\<lambda>v. n_gt v (Fin 10)) improvements)"

text \<open>
  What the environment supplies to one run of \<open>executeSolution\<close>: the learning's
  identifier, the clock at the three places it is read, the two snapshots the monitor
  returns (or the message of the error it throws), whether writing a path fails, and the
  identifiers for new patterns. The body of \<open>executeStep\<close> is a placeholder in the
  source: it records the step's target and walks the validation rules. \<open>ee_stepError\<close>
  says which steps raise once their target is recorded, and with which message; the
  source as it stands is \<open>\<lambda>step. None\<close>.
\<close>

record ExecEnv =
  ee_learningId :: string
  ee_startTime :: nat
  ee_timestamp :: nat
  ee_endTime :: nat
  ee_before :: "string + SystemMetrics"
  ee_after :: "string + SystemMetrics"
  ee_stepError :: "ExecutionStep \<Rightarrow> string option"
  ee_writeFails :: "string \<Rightarrow> bool"
  ee_patternId :: "string \<Rightarrow> string"

definition executeStep ::
  "(ExecutionStep \<Rightarrow> string option) \<Rightarrow> ExecutionStep \<Rightarrow> Learning \<Rightarrow> string option \<times> Learning" where
  "executeStep stepError step learning =
     (stepError step,
      learning\<lparr>l_affectedComponents := l_affectedComponents learning @ [es_target step]\<rparr>)"

text \<open>\<^verbatim>\<open>for (const step of steps) await this.executeStep(step, learning)\<close>.\<close>

fun executeSteps ::
  "(ExecutionStep \<Rightarrow> string option) \<Rightarrow> ExecutionStep list \<Rightarrow> Learning \<Rightarrow> string option \<times> Learning" where
  "executeSteps stepError [] learning = (None, learning)"
| "executeSteps stepError (step # rest) learning =
     (case executeStep stepError step learning of
        (Some msg, learning') \<Rightarrow> (Some msg, learning')
      | (None, learning') \<Rightarrow> executeSteps stepError rest learning')"

definition addLesson :: "string \<Rightarrow> Learning \<Rightarrow> Learning" where
  "addLesson lesson learning = learning\<lparr>l_lessons := l_lessons learning @ [lesson]\<rparr>"

text \<open>The \<^verbatim>\<open>catch\<close> block: the failure is recorded, the rollback plan is run.\<close>

definition recover ::
  "ExecEnv \<Rightarrow> SystemChallenge \<Rightarrow> Solution \<Rightarrow> string \<Rightarrow> Learning \<Rightarrow> SystemChallenge \<times> Learning" where
  "recover env challenge solution msg learning =
     (let failed = addLesson (''Execution failed: '' @ msg) (learning\<lparr>l_outcome := Failure\<rparr>);
          (rollbackError, rolled) =
             executeSteps (ee_stepError env) (im_rollbackPlan (s_implementation solution)) failed;
          final = (case rollbackError of
                     Some e \<Rightarrow> addLesson ''Rollback also failed'' rolled
                   | None \<Rightarrow> rolled)
      in (challenge\<lparr>c_status := Failed\<rparr>, final))"

text \<open>The \<^verbatim>\<open>try\<close> block with its \<^verbatim>\<open>catch\<close>.\<close>

definition attempt ::
  "ExecEnv \<Rightarrow> SystemChallenge \<Rightarrow> Solution \<Rightarrow> Learning \<Rightarrow> SystemChallenge \<times> Learning" where
  "attempt env challenge solution learning =
     (case ee_before env of
        Inl msg \<Rightarrow> recover env challenge solution msg learning
      | Inr beforeMetrics \<Rightarrow>
          (case executeSteps (ee_stepError env) (im_steps (s_implementation solution)) learning of
             (Some msg, learning1) \<Rightarrow> recover env challenge solution msg learning1
           | (None, learning1) \<Rightarrow>
               (case ee_after env of
                  Inl msg \<Rightarrow> recover env challenge solution msg learning1
                | Inr afterMetrics \<Rightarrow>
                    let learning2 =
                          learning1\<lparr>l_metrics := calculateImprovement beforeMetrics afterMetrics\<rparr>
                    in if isSuccessful (l_metrics learning2) (s_estimatedImpact solution)
                       then (challenge\<lparr>c_status := Resolved\<rparr>,
                             addLesson (''Successfully resolved: '' @ c_description challenge)
                               (learning2\<lparr>l_outcome := Success\<rparr>))
                       else (challenge,
                             addLesson ''Solution partially effective, further optimization needed''
                               (learning2\<lparr>l_outcome := Partial\<rparr>)))))"

fun updateFirst :: "('a \<Rightarrow> bool) \<Rightarrow> ('a \<Rightarrow> 'a) \<Rightarrow> 'a list \<Rightarrow> 'a list" where
  "updateFirst P f [] = []"
| "updateFirst P f (x # xs) = (if P x then f x # xs else x # updateFirst P f xs)"

definition findSolution :: "Controller \<Rightarrow> string \<Rightarrow> string \<Rightarrow> Solution option" where
  "findSolution st challengeId solutionId =
     (case map_of (ctl_solutions st) challengeId of
        None \<Rightarrow> None
      | Some sols \<Rightarrow> find (\<lambda>s. s_id s = solutionId) sols)"

definition newLearning :: "ExecEnv \<Rightarrow> string \<Rightarrow> string \<Rightarrow> Learning" where
  "newLearning env challengeId solutionId =
     \<lparr>l_id = ee_learningId env, l_challengeId = challengeId, l_solutionId = solutionId,
      l_outcome = Failure, l_metrics = [], l_lessons = [], l_timestamp = ee_timestamp env,
      l_affectedComponents = []\<rparr>"

text \<open>
  \<open>executeSolution\<close> returns the error the promise rejects with (None when it
  resolves) and the state it leaves. The solution it times is the object held in the
  solutions map; the challenge's \<open>proposedSolutions\<close> is the same array whenever the
  analysis has stored both, which the model reads as the two lists being equal.
\<close>

definition executeSolution ::
  "ExecEnv \<Rightarrow> string \<Rightarrow> string \<Rightarrow> Controller \<Rightarrow> error option \<times> Controller" where
  "executeSolution env challengeId solutionId st =
     (case (map_of (ctl_challenges st) challengeId, findSolution st challengeId solutionId) of
        (Some challenge, Some solution) \<Rightarrow>
          let executing = challenge\<lparr>c_status := Executing\<rparr>;
              st1 = emit (SolutionExecuting executing solution) (setChallenge challengeId executing st);
              (outcomeChallenge, learning) =
                 attempt env executing solution (newLearning env challengeId solutionId);
              timed = solution\<lparr>s_executionTime :=
                         Some (Fin (real (ee_endTime env) - real (ee_startTime env)))\<rparr>;
              retime = updateFirst (\<lambda>s. s_id s = solutionId) (\<lambda>s. timed);
              sols = orElse (map_of (ctl_solutions st) challengeId) [];
              closed = outcomeChallenge
                       \<lparr>c_learnings := c_learnings outcomeChallenge @ [learning],
                        c_proposedSolutions :=
                          (if c_proposedSolutions outcomeChallenge = sols then retime sols
                           else c_proposedSolutions outcomeChallenge)\<rparr>;
              st2 = (setChallenge challengeId closed st1)
                      \<lparr>ctl_solutions := AList.update challengeId (retime sols) (ctl_solutions st1),
                       ctl_learnings := ctl_learnings st1 @ [learning]\<rparr>;
              path = ''learnings/'' @ l_id learning @ ''.json''
          in if ee_writeFails env path then (Some (WriteFailed path), st2)
             else
               let st3 = st2\<lparr>ctl_files := AList.update path (LearningDoc learning None) (ctl_files st2)\<rparr>;
                   st4 = emit (SolutionCompleted closed timed learning) st3
               in (None,
                   st4\<lparr>ctl_learningEngine :=
                         updateKnowledge findChallengeById findSolutionById (ee_patternId env)
                           (ctl_learningEngine st4) learning\<rparr>)
      | _ \<Rightarrow> (Some NotFound, st))"

text \<open>One drain of the queue (the cool-down timer that schedules the next is not modelled).\<close>

definition processExecutionQueue :: "ExecEnv \<Rightarrow> Controller \<Rightarrow> error option \<times> Controller" where
  "processExecutionQueue env st =
     (case ctl_executionQueue st of
        [] \<Rightarrow> (None, st)
      | challengeId # rest \<Rightarrow>
          let st1 = st\<lparr>ctl_executionQueue := rest\<rparr> in
          if challengeId = [] then (None, st1)
          else (case (map_of (ctl_challenges st1) challengeId, map_of (ctl_solutions st1) challengeId) of
                  (Some challenge, Some (best # others)) \<Rightarrow> executeSolution env challengeId (s_id best) st1
                | _ \<Rightarrow> (None, st1)))"

section \<open>Vocabulary of the statements\<close>

text \<open>
  The message of the first element of a loop that raises, and the elements the loop
  reaches (up to and including that one).
\<close>

definition firstError :: "('a \<Rightarrow> string option) \<Rightarrow> 'a list \<Rightarrow> string option" where
  "firstError err xs = (case find (\<lambda>x. err x \<noteq> None) xs of None \<Rightarrow> None | Some x \<Rightarrow> err x)"

fun upToError :: "('a \<Rightarrow> string option) \<Rightarrow> 'a list \<Rightarrow> 'a list" where
  "upToError err [] = []"
| "upToError err (x # xs) = (if err x \<noteq> None then [x] else x # upToError err xs)"

definition learningPath :: "string \<Rightarrow> string" where
  "learningPath i = ''learnings/'' @ i @ ''.json''"

subsection \<open>Example data\<close>

text \<open>
  A performance challenge raised at 92% CPU, one candidate solution with a single
  low-impact risk, and a run of that solution after which the monitor reads 60% CPU.
\<close>

definition ex_step :: ExecutionStep where
  "ex_step = \<lparr>es_order = Fin 1, es_action = ''scale'', es_target = ''compute-resources'',
              es_parameters = [(''type'', VStr ''horizontal'')], es_validation = []\<rparr>"

definition ex_undo :: ExecutionStep where
  "ex_undo = \<lparr>es_order = Fin 1, es_action = ''disable'', es_target = ''auto-scaler'',
              es_parameters = [], es_validation = []\<rparr>"

definition ex_solution :: Solution where
  "ex_solution =
     \<lparr>s_id = ''s1'', s_challengeId = ''c1'', s_title = ''Scale out'',
      s_description = ''Add compute resources'',
      s_implementation = \<lparr>im_type = I_infrastructure, im_steps = [ex_step],
                           im_rollbackPlan = [ex_undo], im_estimatedDuration = Fin 10\<rparr>,
      s_confidence = Fin 0.92,
      s_estimatedImpact = \<lparr>i_performance = Fin 40, i_reliability = Fin 35,
                            i_userExperience = Fin 30, i_cost = Fin (- 15), i_security = Fin 0\<rparr>,
      s_prerequisites = [],
      s_risks = [\<lparr>r_description = ''cost'', r_probability = Fin 0.25, r_impact = R_low,
                  r_mitigation = ''budget alert''\<rparr>],
      s_createdAt = 1000, s_executionTime = None\<rparr>"

definition ex_challenge :: SystemChallenge where
  "ex_challenge =
     \<lparr>c_id = ''c1'', c_type = T_performance, c_severity = S_high,
      c_description = ''High CPU usage detected: 92%'', c_detectedAt = 1000,
      c_context = [(''component'', VStr ''system'')],
      c_proposedSolutions = [ex_solution], c_status = Ready, c_learnings = [],
      c_source = Src_auto\<rparr>"

definition ex_engine :: LearningEngine where
  "ex_engine = \<lparr>le_patterns = [], le_learningHistory = []\<rparr>"

definition ex_state :: Controller where
  "ex_state =
     \<lparr>ctl_challenges = [(''c1'', ex_challenge)], ctl_solutions = [(''c1'', [ex_solution])],
      ctl_learnings = [], ctl_learningEngine = ex_engine, ctl_isRunning = True,
      ctl_executionQueue = [], ctl_emitted = [], ctl_files = []\<rparr>"

definition ex_before :: SystemMetrics where
  "ex_before =
     \<lparr>m_cpu = Fin 92, m_memory = Fin 50, m_diskUsage = Fin 40, m_networkLatency = Fin 20,
      m_errorRate = Fin 1, m_responseTime = Fin 300, m_activeUsers = Fin 10,
      m_videoProcessingQueue = Fin 0\<rparr>"

definition ex_env :: ExecEnv where
  "ex_env =
     \<lparr>ee_learningId = ''learning_1'', ee_startTime = 2000, ee_timestamp = 2000,
      ee_endTime = 2500, ee_before = Inr ex_before, ee_after = Inr (ex_before\<lparr>m_cpu := Fin 60\<rparr>),
      ee_stepError = (\<lambda>step. None), ee_writeFails = (\<lambda>path. False),
      ee_patternId = (\<lambda>key. ''pattern_1'')\<rparr>"

text \<open>The same run when every step, the rollback step too, raises \<^verbatim>\<open>boom\<close>.\<close>

definition ex_env_failing :: ExecEnv where
  "ex_env_failing = ex_env\<lparr>ee_stepError := (\<lambda>step. Some ''boom'')\<rparr>"

text \<open>
  A history of four runs of the example solution, three of them successful, and a
  state in which the example challenge has just been recorded. The generator is taken
  to propose the example solution.
\<close>

definition ex_learning :: "string \<Rightarrow> Outcome \<Rightarrow> Learning" where
  "ex_learning i out =
     \<lparr>l_id = i, l_challengeId = ''c0'', l_solutionId = ''s1'', l_outcome = out,
      l_metrics = [(''cpuImprovement'', Fin 80)], l_lessons = [], l_timestamp = 500,
      l_affectedComponents = [''compute-resources'']\<rparr>"

definition ex_history :: "Learning list" where
  "ex_history =
     [ex_learning ''l1'' Success, ex_learning ''l2'' Success, ex_learning ''l3'' Failure,
      ex_learning ''l4'' Success]"

definition ex_recorded :: Controller where
  "ex_recorded =
     ex_state\<lparr>ctl_challenges := [(''c1'', ex_challenge\<lparr>c_status := Pending, c_proposedSolutions := []\<rparr>)],
              ctl_solutions := [], ctl_learnings := ex_history\<rparr>"


text \<open>
  Two reports of the same type whose descriptions share four of five distinct words,
  recorded one after the other into an empty store.
\<close>

definition ex_partial :: "string \<Rightarrow> PartialChallenge" where
  "ex_partial description =
     \<lparr>pc_id = None, pc_type = Some T_performance, pc_severity = Some S_high,
      pc_description = Some description, pc_detectedAt = None,
      pc_context = Some [(''component'', VStr ''system'')], pc_proposedSolutions = None,
      pc_status = None, pc_learnings = None, pc_source = None\<rparr>"

definition ex_record_env :: "string \<Rightarrow> nat \<Rightarrow> RecordEnv" where
  "ex_record_env i t =
     \<lparr>re_newId = i, re_now = t, re_dateRef = t, re_dateString = (\<lambda>d. ''Thu Jan 01 1970'')\<rparr>"

definition ex_empty :: Controller where
  "ex_empty = ex_state\<lparr>ctl_challenges := [], ctl_solutions := []\<rparr>"

text \<open>
  The template \<^verbatim>\<open>performance:cpu\<close> of \<open>initializeTemplates\<close> (its title is \<^verbatim>\<open>CPU\<close>
  followed by seven Japanese characters, written here as their UTF-8 bytes) and the
  solution the generator builds from it for the example challenge.
\<close>

definition ex_template :: Template where
  "ex_template =
     \<lparr>tp_title = ''CPU'' @
        [CHR 0xE4, CHR 0xBD, CHR 0xBF, CHR 0xE7, CHR 0x94, CHR 0xA8, CHR 0xE7, CHR 0x8E, CHR 0x87,
         CHR 0xE3, CHR 0x81, CHR 0xAE, CHR 0xE6, CHR 0x9C, CHR 0x80, CHR 0xE9, CHR 0x81, CHR 0xA9,
         CHR 0xE5, CHR 0x8C, CHR 0x96],
      tp_steps =
        [\<lparr>ts_action = ''analyze'', ts_target = ''process-list'',
          ts_parameters = [(''sortBy'', VStr ''cpu'')]\<rparr>,
         \<lparr>ts_action = ''optimize'', ts_target = ''worker-pool'',
          ts_parameters = [(''size'', VStr ''auto'')]\<rparr>,
         \<lparr>ts_action = ''scale'', ts_target = ''compute-resources'',
          ts_parameters = [(''type'', VStr ''horizontal'')]\<rparr>]\<rparr>"

definition ex_template_solution :: Solution where
  "ex_template_solution = createSolutionFromTemplate ''s2'' 1000 ex_challenge ex_template"

subsection \<open>The evaluator's formula in the words of the specification\<close>

text \<open>
  Over the reals: the impact weights, the risk score (the mean of probability times
  impact weight, clamped to the unit interval) and the confidence. \<open>finite_value\<close> reads
  a finite number.
\<close>

definition finite_value :: "number \<Rightarrow> real" where
  "finite_value n = (case n of Fin x \<Rightarrow> x | _ \<Rightarrow> 0)"

definition spec_impactWeight :: "RiskImpact \<Rightarrow> real" where
  "spec_impactWeight impact = (case impact of R_high \<Rightarrow> 1 | R_medium \<Rightarrow> 0.5 | R_low \<Rightarrow> 0.2)"

definition spec_riskScore :: "Risk list \<Rightarrow> real" where
  "spec_riskScore risks =
     max 0 (min 1
       ((\<Sum>r\<leftarrow>risks. finite_value (r_probability r) * spec_impactWeight (r_impact r)) /
        real (length risks)))"

definition spec_confidence :: "real \<Rightarrow> real \<Rightarrow> real" where
  "spec_confidence historicalSuccess riskScore = 0.7 * historicalSuccess + 0.3 * (1 - riskScore)"

subsection \<open>Documents of a received package\<close>

text \<open>The documents that integrating a package writes, in the order of the writes.\<close>

definition packageDocuments :: "nat \<Rightarrow> KnowledgeTransferPackage \<Rightarrow> (string \<times> document) list" where
  "packageDocuments now pkg =
     map (\<lambda>p. (''knowledge-base/patterns/'' @ p_id p @ ''.json'', PatternDoc p)) (k_patterns pkg) @
     map (\<lambda>s. (''knowledge-base/solutions/adapted_'' @ s_id s @ ''.json'',
               SolutionDoc (s\<lparr>s_id := ''adapted_'' @ s_id s,
                              s_confidence := n_mul (s_confidence s) (Fin 0.9)\<rparr>)))
       (k_solutions pkg) @
     map (\<lambda>l. (''knowledge-base/learnings/'' @ l_id l @ ''.json'',
               LearningDoc l (Some \<lparr>tm_transferred = True, tm_transferDate = now,
                                     tm_originalSystem = takeWhile (\<lambda>c. c \<noteq> CHR ''_'') (l_id l)\<rparr>)))
       (k_learnings pkg)"

definition writeAll :: "(string \<times> document) list \<Rightarrow> (string \<times> document) list \<Rightarrow> (string \<times> document) list" where
  "writeAll docs fs = foldl (\<lambda>acc (path, doc). AList.update path doc acc) fs docs"

definition ex_package :: KnowledgeTransferPackage where
  "ex_package =
     \<lparr>k_sourceSystem = ''peer'', k_targetSystem = ''self-evolution-system'', k_challenges = [],
      k_solutions = [ex_solution], k_learnings = [ex_learning ''peer_l1'' Success],
      k_patterns = [], k_createdAt = 3000, k_version = ''1.3.0''\<rparr>"

subsection \<open>Patterns and lookups for the examples\<close>

text \<open>
  \<open>relatedTo fc l p\<close>: the lookup \<open>fc\<close> finds the challenge of the learning \<open>l\<close> and the
  trigger of the pattern \<open>p\<close> matches it.
\<close>

definition relatedTo :: "(string \<Rightarrow> SystemChallenge option) \<Rightarrow> Learning \<Rightarrow> Pattern \<Rightarrow> bool" where
  "relatedTo fc l p =
     (case fc (l_challengeId l) of
        None \<Rightarrow> False
      | Some challenge \<Rightarrow> matchesPatternTrigger challenge (p_trigger p))"

text \<open>
  A pattern with the trigger and statistics of the base pattern \<^verbatim>\<open>high-cpu-scale\<close> (its
  texts abridged), an engine that holds it, and lookups over a store in which the
  challenge \<^verbatim>\<open>c0\<close>, raised at 95% CPU, and the example solution exist.
\<close>

definition ex_pattern :: Pattern where
  "ex_pattern =
     \<lparr>p_id = ''high-cpu-scale'', p_name = ''scale on high CPU'',
      p_description = ''scale horizontally when CPU usage is high'',
      p_trigger = \<lparr>t_metrics = [\<lparr>mc_metric = ''cpu'', mc_operator = Op_gt, mc_value = Fin 80,
                                 mc_duration = Some (Fin 300)\<rparr>],
                   t_logs = [], t_events = [], t_combinator = C_AND\<rparr>,
      p_solution = \<lparr>st_name = ''horizontal scaling'', st_steps = [''check'', ''scale''],
                    st_parameters = [(''scaleUpCount'', VNum (Fin 2))],
                    st_expectedOutcome = ''CPU below 70%''\<rparr>,
      p_successRate = Fin 0.85, p_usageCount = Fin 0\<rparr>"

definition ex_pattern_engine :: LearningEngine where
  "ex_pattern_engine = \<lparr>le_patterns = [(''high-cpu-scale'', ex_pattern)], le_learningHistory = []\<rparr>"

definition ex_findChallenge :: "string \<Rightarrow> SystemChallenge option" where
  "ex_findChallenge i =
     (if i = ''c0''
      then Some (ex_challenge\<lparr>c_id := ''c0'',
                   c_context := [(''cpu'', VNum (Fin 95)),
                                 (''metrics'', VObj 1 [(''cpu'', VNum (Fin 95))])]\<rparr>)
      else None)"

definition ex_findSolution :: "string \<Rightarrow> Solution option" where
  "ex_findSolution i = (if i = ''s1'' then Some ex_solution else None)"

definition ex_three :: "Learning list" where
  "ex_three = [ex_learning ''l1'' Success, ex_learning ''l2'' Success, ex_learning ''l4'' Success]"

section \<open>Verified properties\<close>

subsection \<open>Historical solutions\<close>

lemma filterRelevantLearnings_stub:
  "filterRelevantLearnings findChallengeById challenge learnings = []"
  by (simp add: filterRelevantLearnings_def findChallengeById_def)

lemma sortWith_Nil: "sortWith cmp [] = []"
  by (simp add: sortWith_def)

lemma findRelevantSolutions_stub:
  "findRelevantSolutions findChallengeById findSolutionById challenge learnings = []"
  by (simp add: findRelevantSolutions_def filterRelevantLearnings_stub
        extractSuccessfulSolutions_def sortWith_Nil)

text \<open>
  C10. With the source's lookups, \<open>findRelevantSolutions\<close> returns the empty list for
  every challenge and every list of learnings: \<open>findChallengeById\<close> answers \<^verbatim>\<open>null\<close> for
  every identifier, so the filter keeps no learning, and no solution is extracted from
  the empty selection. The analysis of a challenge therefore always hands the
  generator an empty list of historical solutions.
\<close>

theorem C10_findRelevantSolutions_empty:
  "findChallengeById cid = None \<and>
   filterRelevantLearnings findChallengeById challenge learnings = [] \<and>
   findRelevantSolutions findChallengeById findSolutionById challenge learnings = [] \<and>
   analyzeChallenge gen challengeId st =
     analyzeChallenge (\<lambda>c historicalSolutions. gen c []) challengeId st"
proof -
  have "analyzeChallenge_finish gen challengeId s =
        analyzeChallenge_finish (\<lambda>c historicalSolutions. gen c []) challengeId s" for s
    by (cases "map_of (ctl_challenges s) challengeId")
       (simp_all add: analyzeChallenge_finish_def findRelevantSolutions_stub Let_def)
  then show ?thesis
    by (simp add: findRelevantSolutions_stub filterRelevantLearnings_stub findChallengeById_def
          analyzeChallenge_def)
qed

subsection \<open>Executing a solution: improvement, outcome and learning\<close>

lemma n_gt_10_0: "n_gt v (Fin 10) \<Longrightarrow> n_gt v (Fin 0)"
  by (cases v) auto

lemma n_max_Fin: "n_max (Fin a) (Fin b) = Fin (max a b)"
  by (auto simp: n_max_def max_def)

lemma isSuccessful_iff: "isSuccessful m i = list_ex (\<lambda>v. n_gt v (Fin 10)) (map snd m)"
proof -
  have "list_ex (\<lambda>v. n_gt v (Fin 10)) (filter (\<lambda>v. n_gt v (Fin 0)) xs) =
        list_ex (\<lambda>v. n_gt v (Fin 10)) xs" for xs
    by (induction xs) (auto dest: n_gt_10_0)
  moreover have "list_ex P xs \<Longrightarrow> 0 < length xs" for P and xs :: "number list"
    by (cases xs) auto
  ultimately show ?thesis
    unfolding isSuccessful_def Let_def by blast
qed

lemma executeSteps_eq:
  "executeSteps err steps l =
     (firstError err steps,
      l\<lparr>l_affectedComponents := l_affectedComponents l @ map es_target (upToError err steps)\<rparr>)"
proof (induction steps arbitrary: l)
  case Nil
  then show ?case by (simp add: firstError_def)
next
  case (Cons s steps)
  then show ?case
    by (cases "err s") (auto simp: firstError_def executeStep_def)
qed

lemma recover_eq:
  "recover env ch sol msg l =
     (ch\<lparr>c_status := Failed\<rparr>,
      l\<lparr>l_outcome := Failure,
        l_lessons := l_lessons l @ (''Execution failed: '' @ msg) #
           (if firstError (ee_stepError env) (im_rollbackPlan (s_implementation sol)) = None then []
            else [''Rollback also failed'']),
        l_affectedComponents := l_affectedComponents l @
           map es_target (upToError (ee_stepError env) (im_rollbackPlan (s_implementation sol)))\<rparr>)"
  by (cases "firstError (ee_stepError env) (im_rollbackPlan (s_implementation sol))")
     (simp_all add: recover_def executeSteps_eq addLesson_def)

lemma attempt_step_error:
  assumes "ee_before env = Inr b"
    and "firstError (ee_stepError env) (im_steps (s_implementation sol)) = Some msg"
  shows "attempt env ch sol l =
     recover env ch sol msg
       (l\<lparr>l_affectedComponents := l_affectedComponents l @
            map es_target (upToError (ee_stepError env) (im_steps (s_implementation sol)))\<rparr>)"
  using assms by (simp add: attempt_def executeSteps_eq)

lemma attempt_no_error:
  assumes "ee_before env = Inr b"
    and "firstError (ee_stepError env) (im_steps (s_implementation sol)) = None"
    and "ee_after env = Inr a"
  shows "l_metrics (snd (attempt env ch sol l)) = calculateImprovement b a"
  using assms by (simp add: attempt_def executeSteps_eq Let_def addLesson_def)

lemma attempt_outcome:
  "l_metrics l = [] \<Longrightarrow>
   (l_outcome (snd (attempt env ch sol l)) = Success) =
   list_ex (\<lambda>v. n_gt v (Fin 10)) (map snd (l_metrics (snd (attempt env ch sol l))))"
  by (auto simp: attempt_def executeSteps_eq recover_eq addLesson_def isSuccessful_iff Let_def
      split: sum.splits option.splits)

lemma attempt_ids:
  "l_id (snd (attempt env ch sol l)) = l_id l \<and>
   l_challengeId (snd (attempt env ch sol l)) = l_challengeId l \<and>
   l_solutionId (snd (attempt env ch sol l)) = l_solutionId l"
  by (auto simp: attempt_def executeSteps_eq recover_eq addLesson_def Let_def
      split: sum.splits option.splits)

lemma attempt_challenge:
  "c_learnings (fst (attempt env ch sol l)) = c_learnings ch \<and>
   c_proposedSolutions (fst (attempt env ch sol l)) = c_proposedSolutions ch \<and>
   c_id (fst (attempt env ch sol l)) = c_id ch"
  by (auto simp: attempt_def executeSteps_eq recover_eq Let_def
      split: sum.splits option.splits)

lemma executeSolution_found:
  assumes "map_of (ctl_challenges st) cid = Some ch" and "findSolution st cid sid = Some sol"
  shows "\<exists>closed timed.
     ctl_learnings (snd (executeSolution env cid sid st)) =
       ctl_learnings st @ [snd (attempt env (ch\<lparr>c_status := Executing\<rparr>) sol (newLearning env cid sid))] \<and>
     map_of (ctl_challenges (snd (executeSolution env cid sid st))) cid = Some closed \<and>
     c_status closed = c_status (fst (attempt env (ch\<lparr>c_status := Executing\<rparr>) sol (newLearning env cid sid))) \<and>
     c_learnings closed =
       c_learnings ch @ [snd (attempt env (ch\<lparr>c_status := Executing\<rparr>) sol (newLearning env cid sid))] \<and>
     fst (executeSolution env cid sid st) =
       (if ee_writeFails env (learningPath (ee_learningId env))
        then Some (WriteFailed (learningPath (ee_learningId env))) else None) \<and>
     ctl_emitted (snd (executeSolution env cid sid st)) =
       ctl_emitted st @ (SolutionExecuting (ch\<lparr>c_status := Executing\<rparr>) sol, ctl_learnings st) #
         (if ee_writeFails env (learningPath (ee_learningId env)) then []
          else [(SolutionCompleted closed timed
                   (snd (attempt env (ch\<lparr>c_status := Executing\<rparr>) sol (newLearning env cid sid))),
                 ctl_learnings st @
                   [snd (attempt env (ch\<lparr>c_status := Executing\<rparr>) sol (newLearning env cid sid))])])"
proof -
  obtain ch' l where a: "attempt env (ch\<lparr>c_status := Executing\<rparr>) sol (newLearning env cid sid) = (ch', l)"
    by (cases "attempt env (ch\<lparr>c_status := Executing\<rparr>) sol (newLearning env cid sid)")
  have i: "l_id l = ee_learningId env"
    using attempt_ids [of env "ch\<lparr>c_status := Executing\<rparr>" sol "newLearning env cid sid"] a
    by (simp add: newLearning_def)
  show ?thesis
    using assms a i
      attempt_challenge [of env "ch\<lparr>c_status := Executing\<rparr>" sol "newLearning env cid sid"]
    by (simp add: executeSolution_def Let_def learningPath_def emit_def setChallenge_def
          update_conv)
qed

lemma ex_found:
  "map_of (ctl_challenges ex_state) ''c1'' = Some ex_challenge \<and>
   findSolution ex_state ''c1'' ''s1'' = Some ex_solution"
  by (simp add: ex_state_def findSolution_def ex_solution_def)
text \<open>
  C7. For finite readings with a non-zero reading before, the improvement recorded for
  cpu, memory and responseTime is \<open>(before - after) / before * 100\<close>; for errorRate the
  divisor is \<open>max before 0.1\<close>, so it is defined for every finite reading. When the
  monitor answers twice and no step raises, these are the metrics of the learning that
  \<open>executeSolution\<close> appends; and in every run that finds its challenge and solution
  the outcome of that learning is success exactly when one of its metrics is greater
  than 10.
\<close>

theorem C7_improvement_and_outcome:
  "(m_cpu before = Fin cb \<and> m_cpu after = Fin ca \<and> cb \<noteq> 0 \<longrightarrow>
      map_of (calculateImprovement before after) ''cpuImprovement'' =
        Some (Fin ((cb - ca) / cb * 100))) \<and>
   (m_memory before = Fin mb \<and> m_memory after = Fin ma \<and> mb \<noteq> 0 \<longrightarrow>
      map_of (calculateImprovement before after) ''memoryImprovement'' =
        Some (Fin ((mb - ma) / mb * 100))) \<and>
   (m_responseTime before = Fin rb \<and> m_responseTime after = Fin ra \<and> rb \<noteq> 0 \<longrightarrow>
      map_of (calculateImprovement before after) ''responseTimeImprovement'' =
        Some (Fin ((rb - ra) / rb * 100))) \<and>
   (m_errorRate before = Fin eb \<and> m_errorRate after = Fin ea \<longrightarrow>
      map_of (calculateImprovement before after) ''errorRateImprovement'' =
        Some (Fin ((eb - ea) / max eb 0.1 * 100))) \<and>
   (map_of (ctl_challenges st) cid = Some ch \<and> findSolution st cid sid = Some sol \<longrightarrow>
      (ee_before env = Inr before \<and>
       firstError (ee_stepError env) (im_steps (s_implementation sol)) = None \<and>
       ee_after env = Inr after \<longrightarrow>
         l_metrics (last (ctl_learnings (snd (executeSolution env cid sid st)))) =
           calculateImprovement before after) \<and>
      (l_outcome (last (ctl_learnings (snd (executeSolution env cid sid st)))) = Success) =
        list_ex (\<lambda>v. n_gt v (Fin 10))
          (map snd (l_metrics (last (ctl_learnings (snd (executeSolution env cid sid st)))))))"
proof (intro conjI impI)
  have "max eb (1 / 10) \<noteq> 0"
    by (simp add: max_def)
  moreover assume "m_errorRate before = Fin eb \<and> m_errorRate after = Fin ea"
  ultimately show "map_of (calculateImprovement before after) ''errorRateImprovement'' =
      Some (Fin ((eb - ea) / max eb 0.1 * 100))"
    by (simp add: calculateImprovement_def n_sub_def n_max_Fin)
next
  assume f: "map_of (ctl_challenges st) cid = Some ch \<and> findSolution st cid sid = Some sol"
  let ?l = "snd (attempt env (ch\<lparr>c_status := Executing\<rparr>) sol (newLearning env cid sid))"
  from f have l: "last (ctl_learnings (snd (executeSolution env cid sid st))) = ?l"
    using executeSolution_found [of st cid ch sid sol env] by auto
  show "(l_outcome (last (ctl_learnings (snd (executeSolution env cid sid st)))) = Success) =
        list_ex (\<lambda>v. n_gt v (Fin 10))
          (map snd (l_metrics (last (ctl_learnings (snd (executeSolution env cid sid st))))))"
    unfolding l by (rule attempt_outcome) (simp add: newLearning_def)
  assume "ee_before env = Inr before \<and>
       firstError (ee_stepError env) (im_steps (s_implementation sol)) = None \<and>
       ee_after env = Inr after"
  then show "l_metrics (last (ctl_learnings (snd (executeSolution env cid sid st)))) =
           calculateImprovement before after"
    unfolding l by (simp add: attempt_no_error)
qed (simp_all add: calculateImprovement_def n_sub_def)

text \<open>
  The scenario of the specification: 92% CPU before, 60% after. The improvement is
  \<open>800 / 23\<close>, which is 34.8 to one decimal place, and the outcome is success.
\<close>

theorem C7_witness:
  "map_of (calculateImprovement ex_before (ex_before\<lparr>m_cpu := Fin 60\<rparr>)) ''cpuImprovement'' =
     Some (Fin (800 / 23)) \<and>
   \<bar>800 / 23 - 34.8\<bar> < (0.05 :: real) \<and>
   l_metrics (last (ctl_learnings (snd (executeSolution ex_env ''c1'' ''s1'' ex_state)))) =
     calculateImprovement ex_before (ex_before\<lparr>m_cpu := Fin 60\<rparr>) \<and>
   l_outcome (last (ctl_learnings (snd (executeSolution ex_env ''c1'' ''s1'' ex_state)))) = Success"
proof -
  have e: "ee_before ex_env = Inr ex_before \<and>
       firstError (ee_stepError ex_env) (im_steps (s_implementation ex_solution)) = None \<and>
       ee_after ex_env = Inr (ex_before\<lparr>m_cpu := Fin 60\<rparr>)"
    by (simp add: ex_env_def firstError_def ex_solution_def)
  have c: "m_cpu ex_before = Fin 92 \<and> m_cpu (ex_before\<lparr>m_cpu := Fin 60\<rparr>) = Fin 60 \<and> (92::real) \<noteq> 0"
    by (simp add: ex_before_def)
  note t = C7_improvement_and_outcome [where before = ex_before and cb = 92
      and after = "ex_before\<lparr>m_cpu := Fin 60\<rparr>" and ca = 60 and st = ex_state and cid = "''c1''"
      and ch = ex_challenge and sid = "''s1''" and sol = ex_solution and env = ex_env]
  from t c have 1: "map_of (calculateImprovement ex_before (ex_before\<lparr>m_cpu := Fin 60\<rparr>))
      ''cpuImprovement'' = Some (Fin (800 / 23))"
    by simp
  from t e ex_found have 2:
    "l_metrics (last (ctl_learnings (snd (executeSolution ex_env ''c1'' ''s1'' ex_state)))) =
       calculateImprovement ex_before (ex_before\<lparr>m_cpu := Fin 60\<rparr>)"
    by blast
  from t ex_found have 3:
    "(l_outcome (last (ctl_learnings (snd (executeSolution ex_env ''c1'' ''s1'' ex_state)))) = Success) =
        list_ex (\<lambda>v. n_gt v (Fin 10))
          (map snd (l_metrics (last (ctl_learnings (snd (executeSolution ex_env ''c1'' ''s1'' ex_state))))))"
    by blast
  have 4: "list_ex (\<lambda>v. n_gt v (Fin 10))
      (map snd (calculateImprovement ex_before (ex_before\<lparr>m_cpu := Fin 60\<rparr>)))"
    by (simp add: calculateImprovement_def ex_before_def n_sub_def)
  show ?thesis using 1 2 3 4 by simp
qed

text \<open>
  C6 as stated fails: a call that names an unknown challenge is rejected with
  \<^verbatim>\<open>Challenge or solution not found\<close> before anything is recorded, so it produces no
  learning.
\<close>

theorem C6_counterexample:
  "executeSolution ex_env ''c2'' ''s1'' ex_state = (Some NotFound, ex_state) \<and>
   ctl_learnings (snd (executeSolution ex_env ''c2'' ''s1'' ex_state)) = ctl_learnings ex_state"
  by (simp add: executeSolution_def ex_state_def)

text \<open>
  C6, amended. A call that finds its challenge and its solution appends exactly one
  learning \<open>l\<close> to the history (and to the challenge's own learnings). The events of
  the call are \<^verbatim>\<open>solution:executing\<close> and then, unless writing the learning's document
  failed (the only error such a call is rejected with), \<^verbatim>\<open>solution:completed\<close>, whose
  listeners already see \<open>l\<close> in the history. When the monitor has answered and a step
  raises \<open>msg\<close>, the outcome is failure, the challenge is \<^verbatim>\<open>failed\<close>, the steps up to
  the raising one and then the rollback steps up to the first raising one were run, and
  a raising rollback step adds the lesson \<^verbatim>\<open>Rollback also failed\<close> and nothing else.
\<close>

theorem C6_executeSolution_learning:
  assumes "map_of (ctl_challenges st) cid = Some ch" and "findSolution st cid sid = Some sol"
  shows "\<exists>l ch' sol'.
     ctl_learnings (snd (executeSolution env cid sid st)) = ctl_learnings st @ [l] \<and>
     l_challengeId l = cid \<and> l_solutionId l = sid \<and>
     map_of (ctl_challenges (snd (executeSolution env cid sid st))) cid = Some ch' \<and>
     c_learnings ch' = c_learnings ch @ [l] \<and>
     (fst (executeSolution env cid sid st) = None \<or>
      fst (executeSolution env cid sid st) = Some (WriteFailed (learningPath (l_id l)))) \<and>
     ctl_emitted (snd (executeSolution env cid sid st)) =
       ctl_emitted st @ (SolutionExecuting (ch\<lparr>c_status := Executing\<rparr>) sol, ctl_learnings st) #
         (if fst (executeSolution env cid sid st) = None
          then [(SolutionCompleted ch' sol' l, ctl_learnings st @ [l])] else []) \<and>
     (\<forall>b msg.
        ee_before env = Inr b \<and>
        firstError (ee_stepError env) (im_steps (s_implementation sol)) = Some msg \<longrightarrow>
          l_outcome l = Failure \<and> c_status ch' = Failed \<and>
          l_affectedComponents l =
            map es_target (upToError (ee_stepError env) (im_steps (s_implementation sol))) @
            map es_target (upToError (ee_stepError env) (im_rollbackPlan (s_implementation sol))) \<and>
          l_lessons l =
            (''Execution failed: '' @ msg) #
            (if firstError (ee_stepError env) (im_rollbackPlan (s_implementation sol)) = None
             then [] else [''Rollback also failed'']))"
proof -
  let ?a = "attempt env (ch\<lparr>c_status := Executing\<rparr>) sol (newLearning env cid sid)"
  from executeSolution_found [OF assms, of env] obtain closed timed where r:
    "ctl_learnings (snd (executeSolution env cid sid st)) = ctl_learnings st @ [snd ?a]"
    "map_of (ctl_challenges (snd (executeSolution env cid sid st))) cid = Some closed"
    "c_status closed = c_status (fst ?a)"
    "c_learnings closed = c_learnings ch @ [snd ?a]"
    "fst (executeSolution env cid sid st) =
       (if ee_writeFails env (learningPath (ee_learningId env))
        then Some (WriteFailed (learningPath (ee_learningId env))) else None)"
    "ctl_emitted (snd (executeSolution env cid sid st)) =
       ctl_emitted st @ (SolutionExecuting (ch\<lparr>c_status := Executing\<rparr>) sol, ctl_learnings st) #
         (if ee_writeFails env (learningPath (ee_learningId env)) then []
          else [(SolutionCompleted closed timed (snd ?a), ctl_learnings st @ [snd ?a])])"
    by blast
  have ids: "l_id (snd ?a) = ee_learningId env" "l_challengeId (snd ?a) = cid"
    "l_solutionId (snd ?a) = sid"
    using attempt_ids [of env "ch\<lparr>c_status := Executing\<rparr>" sol "newLearning env cid sid"]
    by (simp_all add: newLearning_def)
  have thrown: "l_outcome (snd ?a) = Failure \<and> c_status closed = Failed \<and>
          l_affectedComponents (snd ?a) =
            map es_target (upToError (ee_stepError env) (im_steps (s_implementation sol))) @
            map es_target (upToError (ee_stepError env) (im_rollbackPlan (s_implementation sol))) \<and>
          l_lessons (snd ?a) =
            (''Execution failed: '' @ msg) #
            (if firstError (ee_stepError env) (im_rollbackPlan (s_implementation sol)) = None
             then [] else [''Rollback also failed''])"
    if "ee_before env = Inr b"
      and "firstError (ee_stepError env) (im_steps (s_implementation sol)) = Some msg" for b msg
    using that r(3) by (simp add: attempt_step_error recover_eq newLearning_def)
  show ?thesis
    apply (rule exI [of _ "snd ?a"], rule exI [of _ closed], rule exI [of _ timed])
    using r ids thrown by (simp add: learningPath_def)
qed

text \<open>
  A run in which the only step raises and the rollback step raises too: one learning,
  outcome failure, both targets recorded, both lessons, the challenge failed, and the
  call still resolves, after emitting the completion event over a history of one.
\<close>

theorem C6_witness:
  "map_of (ctl_challenges ex_state) ''c1'' = Some ex_challenge \<and>
   findSolution ex_state ''c1'' ''s1'' = Some ex_solution \<and>
   (\<exists>l ch' sol'.
      ctl_learnings (snd (executeSolution ex_env_failing ''c1'' ''s1'' ex_state)) = [l] \<and>
      fst (executeSolution ex_env_failing ''c1'' ''s1'' ex_state) = None \<and>
      ctl_emitted (snd (executeSolution ex_env_failing ''c1'' ''s1'' ex_state)) =
        [(SolutionExecuting (ex_challenge\<lparr>c_status := Executing\<rparr>) ex_solution, []),
         (SolutionCompleted ch' sol' l, [l])] \<and>
      l_outcome l = Failure \<and> c_status ch' = Failed \<and>
      l_affectedComponents l = [''compute-resources'', ''auto-scaler''] \<and>
      l_lessons l = [''Execution failed: boom'', ''Rollback also failed''])"
proof -
  have e: "ee_before ex_env_failing = Inr ex_before \<and>
      firstError (ee_stepError ex_env_failing) (im_steps (s_implementation ex_solution)) = Some ''boom''"
    by (simp add: ex_env_failing_def ex_env_def firstError_def ex_solution_def)
  have w: "\<not> ee_writeFails ex_env_failing p" for p
    by (simp add: ex_env_failing_def ex_env_def)
  have u: "firstError (ee_stepError ex_env_failing) (im_rollbackPlan (s_implementation ex_solution)) \<noteq> None"
     "map es_target (upToError (ee_stepError ex_env_failing) (im_steps (s_implementation ex_solution))) =
        [''compute-resources'']"
     "map es_target (upToError (ee_stepError ex_env_failing) (im_rollbackPlan (s_implementation ex_solution))) =
        [''auto-scaler'']"
    by (simp_all add: ex_env_failing_def ex_env_def firstError_def ex_solution_def ex_step_def
          ex_undo_def)
  have n: "fst (executeSolution ex_env_failing ''c1'' ''s1'' ex_state) = None"
    using executeSolution_found [of ex_state "''c1''" ex_challenge "''s1''" ex_solution ex_env_failing]
      ex_found w by auto
  from C6_executeSolution_learning [of ex_state "''c1''" ex_challenge "''s1''" ex_solution ex_env_failing]
    ex_found
  obtain l ch' sol' where t:
    "ctl_learnings (snd (executeSolution ex_env_failing ''c1'' ''s1'' ex_state)) =
       ctl_learnings ex_state @ [l]"
    "ctl_emitted (snd (executeSolution ex_env_failing ''c1'' ''s1'' ex_state)) =
       ctl_emitted ex_state @
         (SolutionExecuting (ex_challenge\<lparr>c_status := Executing\<rparr>) ex_solution, ctl_learnings ex_state) #
         (if fst (executeSolution ex_env_failing ''c1'' ''s1'' ex_state) = None
          then [(SolutionCompleted ch' sol' l, ctl_learnings ex_state @ [l])] else [])"
    "\<forall>b msg.
        ee_before ex_env_failing = Inr b \<and>
        firstError (ee_stepError ex_env_failing) (im_steps (s_implementation ex_solution)) = Some msg \<longrightarrow>
          l_outcome l = Failure \<and> c_status ch' = Failed \<and>
          l_affectedComponents l =
            map es_target (upToError (ee_stepError ex_env_failing) (im_steps (s_implementation ex_solution))) @
            map es_target (upToError (ee_stepError ex_env_failing) (im_rollbackPlan (s_implementation ex_solution))) \<and>
          l_lessons l =
            (''Execution failed: '' @ msg) #
            (if firstError (ee_stepError ex_env_failing) (im_rollbackPlan (s_implementation ex_solution)) = None
             then [] else [''Rollback also failed''])"
    by blast
  from t(3) e have f: "l_outcome l = Failure \<and> c_status ch' = Failed \<and>
      l_affectedComponents l = [''compute-resources'', ''auto-scaler''] \<and>
      l_lessons l = [''Execution failed: boom'', ''Rollback also failed'']"
    using u by auto
  have s: "ctl_learnings ex_state = [] \<and> ctl_emitted ex_state = []"
    by (simp add: ex_state_def)
  show ?thesis
    using ex_found t(1,2) n f s by auto
qed

subsection \<open>The automatic-execution gate\<close>







subsection \<open>Deduplication of recorded challenges\<close>

lemma ex_similarity:
  "calculateSimilarity ''Slow disk on node'' ''slow  disk on node seven'' = Fin (4 / 5)"
  by (simp add: calculateSimilarity_def splitWs_def toLowerCase_def lowerChar_def isSpace_def
        newSet_def of_count_def Let_def)
lemma findSimilarChallenge_Some:
  assumes "findSimilarChallenge st p = Some (k, ex)"
  shows "(k, ex) \<in> set (ctl_challenges st) \<and> pc_type p = Some (c_type ex) \<and>
         c_status ex \<noteq> Resolved \<and>
         n_gt (calculateSimilarity (c_description ex) (descriptionOf p)) (Fin 0.8)"
  using assms unfolding findSimilarChallenge_def find_Some_iff
  by (auto simp: in_set_conv_nth)

lemma findSimilarChallenge_exists:
  assumes "(k, ex) \<in> set (ctl_challenges st)" and "pc_type p = Some (c_type ex)"
    and "c_status ex \<noteq> Resolved"
    and "n_gt (calculateSimilarity (c_description ex) (descriptionOf p)) (Fin 0.8)"
  shows "\<exists>k' ex'. findSimilarChallenge st p = Some (k', ex')"
proof (cases "findSimilarChallenge st p")
  case None
  then show ?thesis
    using assms unfolding findSimilarChallenge_def find_None_iff by auto
next
  case (Some a)
  then show ?thesis by (cases a) simp
qed

lemma update_keys_present:
  "k \<in> fst ` set al \<Longrightarrow> map fst (AList.update k v al) = map fst al"
  by (simp add: update_keys)

lemma recordChallenge_duplicate:
  assumes "findSimilarChallenge st p = Some (k, ex)"
  shows "recordChallenge env p st =
           (c_id ex, st\<lparr>ctl_challenges := AList.update k (noteOccurrence env ex) (ctl_challenges st)\<rparr>)"
  using assms by (simp add: recordChallenge_def)

lemma recordChallenge_new:
  assumes "findSimilarChallenge st p = None"
  shows "fst (recordChallenge env p st) = re_newId env \<and>
         ctl_challenges (snd (recordChallenge env p st)) =
           AList.update (re_newId env) ((fullChallenge env p)\<lparr>c_status := Analyzing\<rparr>)
             (ctl_challenges st)"
  using assms
  by (simp add: recordChallenge_def Let_def analyzeChallenge_begin_def emit_def saveChallenge_def
        update_conv)

lemma fullChallenge_fields:
  "c_type (fullChallenge env p) = orElse (pc_type p) T_error \<and>
   c_severity (fullChallenge env p) = orElse (pc_severity p) S_medium \<and>
   c_description (fullChallenge env p) = descriptionOf p \<and>
   c_id (fullChallenge env p) = orElse (pc_id p) (re_newId env)"
  by (simp add: fullChallenge_def descriptionOf_def orElse_def)

lemma findSimilarChallenge_single:
  "ctl_challenges st = [(k, ex)] \<Longrightarrow>
   findSimilarChallenge st p =
     (if pc_type p = Some (c_type ex) \<and> c_status ex \<noteq> Resolved \<and>
         n_gt (calculateSimilarity (c_description ex) (descriptionOf p)) (Fin 0.8)
      then Some (k, ex) else None)"
  by (auto simp: findSimilarChallenge_def)

lemma two_records:
  assumes "ctl_challenges st0 = []"
    and "pc_type p2 = Some (orElse (pc_type p1) T_error)"
  shows "ctl_challenges (snd (recordChallenge env2 p2 (snd (recordChallenge env1 p1 st0)))) =
     (if n_gt (calculateSimilarity (descriptionOf p1) (descriptionOf p2)) (Fin 0.8)
      then [(re_newId env1, noteOccurrence env2 ((fullChallenge env1 p1)\<lparr>c_status := Analyzing\<rparr>))]
      else if re_newId env2 = re_newId env1
      then [(re_newId env1, (fullChallenge env2 p2)\<lparr>c_status := Analyzing\<rparr>)]
      else [(re_newId env1, (fullChallenge env1 p1)\<lparr>c_status := Analyzing\<rparr>),
            (re_newId env2, (fullChallenge env2 p2)\<lparr>c_status := Analyzing\<rparr>)]) \<and>
     fst (recordChallenge env2 p2 (snd (recordChallenge env1 p1 st0))) =
     (if n_gt (calculateSimilarity (descriptionOf p1) (descriptionOf p2)) (Fin 0.8)
      then orElse (pc_id p1) (re_newId env1) else re_newId env2)"
proof -
  let ?st1 = "snd (recordChallenge env1 p1 st0)"
  let ?c1 = "(fullChallenge env1 p1)\<lparr>c_status := Analyzing\<rparr>"
  have n: "findSimilarChallenge st0 p1 = None"
    using assms(1) by (simp add: findSimilarChallenge_def)
  have s1: "ctl_challenges ?st1 = [(re_newId env1, ?c1)]"
    using recordChallenge_new [OF n, of env1] assms(1) by simp
  have f: "findSimilarChallenge ?st1 p2 =
     (if n_gt (calculateSimilarity (descriptionOf p1) (descriptionOf p2)) (Fin 0.8)
      then Some (re_newId env1, ?c1) else None)"
    using findSimilarChallenge_single [OF s1, of p2] assms(2)
    by (simp add: fullChallenge_fields)
  show ?thesis
  proof (cases "n_gt (calculateSimilarity (descriptionOf p1) (descriptionOf p2)) (Fin 0.8)")
    case True
    with f have "findSimilarChallenge ?st1 p2 = Some (re_newId env1, ?c1)" by simp
    from recordChallenge_duplicate [OF this, of env2] True s1 show ?thesis
      by (simp add: fullChallenge_fields)
  next
    case False
    with f have "findSimilarChallenge ?st1 p2 = None" by simp
    from recordChallenge_new [OF this, of env2] False s1 show ?thesis
      by simp
  qed
qed
lemma noteOccurrence_context:
  "getProp (c_context (noteOccurrence env ex)) ''occurrences'' =
     nextOccurrences (re_dateString env) (getProp (c_context ex) ''occurrences'') \<and>
   getProp (c_context (noteOccurrence env ex)) ''lastOccurred'' = VDate (re_dateRef env) (re_now env) \<and>
   noteOccurrence env ex = ex\<lparr>c_context := c_context (noteOccurrence env ex)\<rparr>"
  by (simp add: noteOccurrence_def getProp_def update_conv)

text \<open>
  C1 as stated fails at the boundary: the test is \<^verbatim>\<open>similarity > 0.8\<close>, so two
  descriptions that share exactly four of their five distinct words (similarity 0.8)
  are stored as two challenges.
\<close>

theorem C1_counterexample:
  "calculateSimilarity ''Slow disk on node'' ''slow  disk on node seven'' = Fin 0.8 \<and>
   length (ctl_challenges
     (snd (recordChallenge (ex_record_env ''challenge_2'' 2000) (ex_partial ''slow  disk on node seven'')
        (snd (recordChallenge (ex_record_env ''challenge_1'' 1000) (ex_partial ''Slow disk on node'')
           ex_empty))))) = 2"
proof -
  have e: "ctl_challenges ex_empty = []"
    by (simp add: ex_empty_def)
  have t: "pc_type (ex_partial b) = Some (orElse (pc_type (ex_partial a)) T_error)" for a b
    by (simp add: ex_partial_def orElse_def)
  have d: "descriptionOf (ex_partial a) = a" for a
    by (simp add: ex_partial_def descriptionOf_def)
  have i: "re_newId (ex_record_env ''challenge_2'' 2000) \<noteq> re_newId (ex_record_env ''challenge_1'' 1000)"
    by (simp add: ex_record_env_def)
  show ?thesis
    using two_records [where ?st0.0 = ex_empty and ?p1.0 = "ex_partial ''Slow disk on node''"
        and ?p2.0 = "ex_partial ''slow  disk on node seven''"
        and ?env1.0 = "ex_record_env ''challenge_1'' 1000"
        and ?env2.0 = "ex_record_env ''challenge_2'' 2000"] e t i
    by (simp add: d ex_similarity)
qed

text \<open>
  C1, amended. (1) If some stored challenge of the type of the report, not resolved,
  has a description whose similarity with the reported one is greater than 0.8, then
  \<open>recordChallenge\<close> picks such a challenge (the first in the map), returns its
  identifier, stores no new record and emits nothing, and in that challenge's context
  sets \<^verbatim>\<open>occurrences\<close> to the next count (2 when there was none) and \<^verbatim>\<open>lastOccurred\<close> to
  the current date; every other entry of the map is unchanged. (2) Two reports of the
  same type recorded one after the other into an empty store leave exactly one stored
  challenge when the similarity of their descriptions is greater than 0.8, and two when
  it is at most 0.8 (the two generated identifiers being different).
\<close>

theorem C1_deduplication:
  "((k, ex) \<in> set (ctl_challenges st) \<and> pc_type p = Some (c_type ex) \<and> c_status ex \<noteq> Resolved \<and>
    n_gt (calculateSimilarity (c_description ex) (descriptionOf p)) (Fin 0.8) \<longrightarrow>
      (\<exists>k' ex'.
         (k', ex') \<in> set (ctl_challenges st) \<and> pc_type p = Some (c_type ex') \<and>
         c_status ex' \<noteq> Resolved \<and>
         n_gt (calculateSimilarity (c_description ex') (descriptionOf p)) (Fin 0.8) \<and>
         fst (recordChallenge env p st) = c_id ex' \<and>
         map fst (ctl_challenges (snd (recordChallenge env p st))) = map fst (ctl_challenges st) \<and>
         ctl_emitted (snd (recordChallenge env p st)) = ctl_emitted st \<and>
         map_of (ctl_challenges (snd (recordChallenge env p st))) k' =
           Some (ex'\<lparr>c_context := c_context (noteOccurrence env ex')\<rparr>) \<and>
         getProp (c_context (noteOccurrence env ex')) ''occurrences'' =
           nextOccurrences (re_dateString env) (getProp (c_context ex') ''occurrences'') \<and>
         nextOccurrences (re_dateString env) VUndefined = VNum (Fin 2) \<and>
         getProp (c_context (noteOccurrence env ex')) ''lastOccurred'' =
           VDate (re_dateRef env) (re_now env) \<and>
         (\<forall>j. j \<noteq> k' \<longrightarrow>
            map_of (ctl_challenges (snd (recordChallenge env p st))) j =
            map_of (ctl_challenges st) j))) \<and>
   (ctl_challenges st0 = [] \<and> pc_type p2 = Some (orElse (pc_type p1) T_error) \<longrightarrow>
      (n_gt (calculateSimilarity (descriptionOf p1) (descriptionOf p2)) (Fin 0.8) \<longrightarrow>
         length (ctl_challenges
           (snd (recordChallenge env2 p2 (snd (recordChallenge env1 p1 st0))))) = 1 \<and>
         fst (recordChallenge env2 p2 (snd (recordChallenge env1 p1 st0))) =
           orElse (pc_id p1) (fst (recordChallenge env1 p1 st0))) \<and>
      (\<not> n_gt (calculateSimilarity (descriptionOf p1) (descriptionOf p2)) (Fin 0.8) \<and>
       re_newId env2 \<noteq> re_newId env1 \<longrightarrow>
         length (ctl_challenges
           (snd (recordChallenge env2 p2 (snd (recordChallenge env1 p1 st0))))) = 2))"
proof (intro conjI impI)
  assume a: "(k, ex) \<in> set (ctl_challenges st) \<and> pc_type p = Some (c_type ex) \<and>
    c_status ex \<noteq> Resolved \<and>
    n_gt (calculateSimilarity (c_description ex) (descriptionOf p)) (Fin 0.8)"
  then obtain k' ex' where f: "findSimilarChallenge st p = Some (k', ex')"
    using findSimilarChallenge_exists [of k ex st p] by blast
  note m = findSimilarChallenge_Some [OF f]
  note r = recordChallenge_duplicate [OF f, of env]
  have keys: "map fst (ctl_challenges (snd (recordChallenge env p st))) = map fst (ctl_challenges st)"
    using m r by (simp add: update_keys image_iff) force
  have "map_of (ctl_challenges (snd (recordChallenge env p st))) =
      (map_of (ctl_challenges st))(k' \<mapsto> noteOccurrence env ex')"
    using r by (simp add: update_conv')
  then have upd: "map_of (ctl_challenges (snd (recordChallenge env p st))) k' =
           Some (ex'\<lparr>c_context := c_context (noteOccurrence env ex')\<rparr>)"
    and others: "\<forall>j. j \<noteq> k' \<longrightarrow>
            map_of (ctl_challenges (snd (recordChallenge env p st))) j =
            map_of (ctl_challenges st) j"
    using noteOccurrence_context [of env ex'] by simp_all
  have two: "nextOccurrences (re_dateString env) VUndefined = VNum (Fin 2)"
    by (simp add: nextOccurrences_def)
  show "\<exists>k' ex'.
         (k', ex') \<in> set (ctl_challenges st) \<and> pc_type p = Some (c_type ex') \<and>
         c_status ex' \<noteq> Resolved \<and>
         n_gt (calculateSimilarity (c_description ex') (descriptionOf p)) (Fin 0.8) \<and>
         fst (recordChallenge env p st) = c_id ex' \<and>
         map fst (ctl_challenges (snd (recordChallenge env p st))) = map fst (ctl_challenges st) \<and>
         ctl_emitted (snd (recordChallenge env p st)) = ctl_emitted st \<and>
         map_of (ctl_challenges (snd (recordChallenge env p st))) k' =
           Some (ex'\<lparr>c_context := c_context (noteOccurrence env ex')\<rparr>) \<and>
         getProp (c_context (noteOccurrence env ex')) ''occurrences'' =
           nextOccurrences (re_dateString env) (getProp (c_context ex') ''occurrences'') \<and>
         nextOccurrences (re_dateString env) VUndefined = VNum (Fin 2) \<and>
         getProp (c_context (noteOccurrence env ex')) ''lastOccurred'' =
           VDate (re_dateRef env) (re_now env) \<and>
         (\<forall>j. j \<noteq> k' \<longrightarrow>
            map_of (ctl_challenges (snd (recordChallenge env p st))) j =
            map_of (ctl_challenges st) j)"
    apply (rule exI [of _ k'], rule exI [of _ ex'])
    using m keys upd others two noteOccurrence_context [of env ex'] r by simp
next
  assume a: "ctl_challenges st0 = [] \<and> pc_type p2 = Some (orElse (pc_type p1) T_error)"
  then have n: "findSimilarChallenge st0 p1 = None"
    by (simp add: findSimilarChallenge_def)
  note t = two_records [where ?st0.0 = st0 and ?p1.0 = p1 and ?p2.0 = p2 and ?env1.0 = env1
      and ?env2.0 = env2]
  {
    assume "n_gt (calculateSimilarity (descriptionOf p1) (descriptionOf p2)) (Fin 0.8)"
    with t a recordChallenge_new [OF n, of env1]
    show "length (ctl_challenges
           (snd (recordChallenge env2 p2 (snd (recordChallenge env1 p1 st0))))) = 1"
      and "fst (recordChallenge env2 p2 (snd (recordChallenge env1 p1 st0))) =
           orElse (pc_id p1) (fst (recordChallenge env1 p1 st0))"
      by simp_all
  }
  {
    assume "\<not> n_gt (calculateSimilarity (descriptionOf p1) (descriptionOf p2)) (Fin 0.8) \<and>
       re_newId env2 \<noteq> re_newId env1"
    with t a
    show "length (ctl_challenges
           (snd (recordChallenge env2 p2 (snd (recordChallenge env1 p1 st0))))) = 2"
      by simp
  }
qed
text \<open>
  The same report in other letter case and spacing (similarity 1) is merged into the
  first: one stored challenge, the first identifier returned, \<^verbatim>\<open>occurrences\<close> set to 2.
\<close>

theorem C1_witness:
  "calculateSimilarity ''Slow disk on node'' ''SLOW disk  on node'' = Fin 1 \<and>
   length (ctl_challenges
     (snd (recordChallenge (ex_record_env ''challenge_2'' 2000) (ex_partial ''SLOW disk  on node'')
        (snd (recordChallenge (ex_record_env ''challenge_1'' 1000) (ex_partial ''Slow disk on node'')
           ex_empty))))) = 1 \<and>
   fst (recordChallenge (ex_record_env ''challenge_2'' 2000) (ex_partial ''SLOW disk  on node'')
        (snd (recordChallenge (ex_record_env ''challenge_1'' 1000) (ex_partial ''Slow disk on node'')
           ex_empty))) = ''challenge_1'' \<and>
   (\<exists>ex'.
      map_of (ctl_challenges
        (snd (recordChallenge (ex_record_env ''challenge_2'' 2000) (ex_partial ''SLOW disk  on node'')
           (snd (recordChallenge (ex_record_env ''challenge_1'' 1000) (ex_partial ''Slow disk on node'')
              ex_empty))))) ''challenge_1'' = Some ex' \<and>
      getProp (c_context ex') ''occurrences'' = VNum (Fin 2) \<and>
      getProp (c_context ex') ''lastOccurred'' = VDate 2000 2000)"
proof -
  let ?E1 = "ex_record_env ''challenge_1'' 1000" and ?E2 = "ex_record_env ''challenge_2'' 2000"
  let ?P1 = "ex_partial ''Slow disk on node''" and ?P2 = "ex_partial ''SLOW disk  on node''"
  let ?st1 = "snd (recordChallenge ?E1 ?P1 ex_empty)"
  let ?c1 = "(fullChallenge ?E1 ?P1)\<lparr>c_status := Analyzing\<rparr>"
  have s: "calculateSimilarity ''Slow disk on node'' ''SLOW disk  on node'' = Fin 1"
    by (simp add: calculateSimilarity_def splitWs_def toLowerCase_def lowerChar_def isSpace_def
          newSet_def of_count_def Let_def)
  have e: "ctl_challenges ex_empty = []"
    by (simp add: ex_empty_def)
  have n: "findSimilarChallenge ex_empty ?P1 = None"
    by (simp add: findSimilarChallenge_def e)
  have s1: "ctl_challenges ?st1 = [(''challenge_1'', ?c1)]" "fst (recordChallenge ?E1 ?P1 ex_empty) = ''challenge_1''"
    using recordChallenge_new [OF n, of ?E1] e by (simp_all add: ex_record_env_def)
  have c1: "pc_type ?P2 = Some (c_type ?c1)" "c_status ?c1 \<noteq> Resolved"
    "c_description ?c1 = ''Slow disk on node''" "descriptionOf ?P2 = ''SLOW disk  on node''"
    "descriptionOf ?P1 = ''Slow disk on node''" "c_id ?c1 = ''challenge_1''"
    "getProp (c_context ?c1) ''occurrences'' = VUndefined"
    "pc_type ?P2 = Some (orElse (pc_type ?P1) T_error)" "pc_id ?P1 = None"
    by (simp_all add: fullChallenge_def ex_partial_def orElse_def descriptionOf_def getProp_def
          ex_record_env_def)
  note t = C1_deduplication [where k = "''challenge_1''" and ex = ?c1 and st = ?st1 and p = ?P2
      and env = ?E2 and ?st0.0 = ex_empty and ?p1.0 = ?P1 and ?p2.0 = ?P2 and ?env1.0 = ?E1
      and ?env2.0 = ?E2]
  from t s s1 c1 e have two:
    "length (ctl_challenges (snd (recordChallenge ?E2 ?P2 ?st1))) = 1"
    "fst (recordChallenge ?E2 ?P2 ?st1) = ''challenge_1''"
    by (simp_all add: orElse_def)
  from t s s1 c1 obtain k' ex' where o:
    "(k', ex') \<in> set (ctl_challenges ?st1)"
    "map_of (ctl_challenges (snd (recordChallenge ?E2 ?P2 ?st1))) k' =
           Some (ex'\<lparr>c_context := c_context (noteOccurrence ?E2 ex')\<rparr>)"
    "getProp (c_context (noteOccurrence ?E2 ex')) ''occurrences'' =
           nextOccurrences (re_dateString ?E2) (getProp (c_context ex') ''occurrences'')"
    "nextOccurrences (re_dateString ?E2) VUndefined = VNum (Fin 2)"
    "getProp (c_context (noteOccurrence ?E2 ex')) ''lastOccurred'' =
           VDate (re_dateRef ?E2) (re_now ?E2)"
    by auto
  from o(1) s1 have k: "k' = ''challenge_1''" "ex' = ?c1"
    by simp_all
  have "map_of (ctl_challenges (snd (recordChallenge ?E2 ?P2 ?st1))) ''challenge_1'' =
      Some (?c1\<lparr>c_context := c_context (noteOccurrence ?E2 ?c1)\<rparr>) \<and>
      getProp (c_context (?c1\<lparr>c_context := c_context (noteOccurrence ?E2 ?c1)\<rparr>)) ''occurrences'' =
        VNum (Fin 2) \<and>
      getProp (c_context (?c1\<lparr>c_context := c_context (noteOccurrence ?E2 ?c1)\<rparr>)) ''lastOccurred'' =
        VDate 2000 2000"
    using o(2-5) c1(7) unfolding k by (simp add: ex_record_env_def)
  then have "\<exists>ex'.
      map_of (ctl_challenges (snd (recordChallenge ?E2 ?P2 ?st1))) ''challenge_1'' = Some ex' \<and>
      getProp (c_context ex') ''occurrences'' = VNum (Fin 2) \<and>
      getProp (c_context ex') ''lastOccurred'' = VDate 2000 2000"
    by blast
  with s two show ?thesis by simp
qed

subsection \<open>Risk score and confidence\<close>

lemma n_add_NaN_right: "n_add x NaN = NaN"
  by (cases x) simp_all

lemma riskScore_empty: "s_risks s = [] \<Longrightarrow> calculateRiskScore s = NaN"
  by (simp add: calculateRiskScore_def of_count_def n_min_def)

lemma confidence_empty: "s_risks s = [] \<Longrightarrow> s_confidence (evaluateSolution st s) = NaN"
  by (simp add: evaluateSolution_def riskScore_empty n_sub_def n_add_NaN_right)

lemma evaluateSolution_risks: "s_risks (evaluateSolution st s) = s_risks s"
  by (simp add: evaluateSolution_def Let_def)

text \<open>
  C9. A solution built from a pattern or from a template has no risks. For every
  solution without risks the risk sum is 0 and the count is 0, their quotient is
  \<^verbatim>\<open>NaN\<close>, and so are the risk score and the recomputed confidence, whatever the
  historical success; \<^verbatim>\<open>NaN > 0.8\<close> is false, so the gate rejects the evaluated solution
  in every state and for every challenge.
\<close>

theorem C9_empty_risks_NaN:
  "s_risks (createSolutionFromPattern newId now challenge pattern) = [] \<and>
   s_risks (createSolutionFromTemplate newId' now' challenge' template) = [] \<and>
   (s_risks solution = [] \<longrightarrow>
      n_div (Fin 0) (of_count (length (s_risks solution))) = NaN \<and>
      calculateRiskScore solution = NaN \<and>
      s_confidence (evaluateSolution st solution) = NaN \<and>
      \<not> n_gt (s_confidence (evaluateSolution st solution)) (Fin 0.8) \<and>
      \<not> shouldAutoExecute st' c (evaluateSolution st solution))"
  by (simp add: createSolutionFromPattern_def createSolutionFromTemplate_def riskScore_empty
        confidence_empty shouldAutoExecute_def of_count_def)

text \<open>The solution built from the template \<^verbatim>\<open>performance:cpu\<close>, on the running example state.\<close>

theorem C9_witness:
  "s_risks ex_template_solution = [] \<and>
   s_confidence (evaluateSolution ex_recorded ex_template_solution) = NaN \<and>
   \<not> shouldAutoExecute ex_recorded ex_challenge (evaluateSolution ex_recorded ex_template_solution)"
  using C9_empty_risks_NaN [where solution = ex_template_solution and st = ex_recorded
      and st' = ex_recorded and c = ex_challenge and newId' = "''s2''" and now' = 1000
      and challenge' = ex_challenge and template = ex_template]
  by (simp add: ex_template_solution_def)

lemma impactWeight_spec: "impactWeight i = Fin (spec_impactWeight i)"
  by (cases i) (simp_all add: impactWeight_def spec_impactWeight_def)

lemma risk_sum:
  assumes "\<forall>r\<in>set rs. \<exists>p. r_probability r = Fin p"
  shows "foldl (\<lambda>score risk. n_add score (n_mul (r_probability risk) (impactWeight (r_impact risk))))
           (Fin a) rs =
         Fin (a + (\<Sum>r\<leftarrow>rs. finite_value (r_probability r) * spec_impactWeight (r_impact r)))"
  using assms
proof (induction rs arbitrary: a)
  case Nil
  then show ?case by simp
next
  case (Cons r rs)
  then obtain p where p: "r_probability r = Fin p" by auto
  from Cons have "\<forall>r\<in>set rs. \<exists>p. r_probability r = Fin p" by simp
  from Cons.IH [OF this] p show ?case
    by (simp add: impactWeight_spec finite_value_def add.assoc)
qed

lemma risk_sum_bounds:
  assumes "\<forall>r\<in>set rs. \<exists>p. r_probability r = Fin p \<and> 0 \<le> p \<and> p \<le> 1"
  shows "0 \<le> (\<Sum>r\<leftarrow>rs. finite_value (r_probability r) * spec_impactWeight (r_impact r)) \<and>
         (\<Sum>r\<leftarrow>rs. finite_value (r_probability r) * spec_impactWeight (r_impact r)) \<le> real (length rs)"
  using assms
proof (induction rs)
  case Nil
  then show ?case by simp
next
  case (Cons r rs)
  then obtain p where p: "r_probability r = Fin p" "0 \<le> p" "p \<le> 1" by auto
  have w: "0 \<le> spec_impactWeight (r_impact r) \<and> spec_impactWeight (r_impact r) \<le> 1"
    by (cases "r_impact r") (simp_all add: spec_impactWeight_def)
  from p w have t: "0 \<le> p * spec_impactWeight (r_impact r) \<and> p * spec_impactWeight (r_impact r) \<le> 1"
    by (simp add: mult_le_one)
  from Cons have "\<forall>r\<in>set rs. \<exists>p. r_probability r = Fin p \<and> 0 \<le> p \<and> p \<le> 1" by simp
  from Cons.IH [OF this] t p(1) show ?case
    by (simp add: finite_value_def)
qed

lemma n_min_Fin: "n_min (Fin a) (Fin b) = Fin (min a b)"
  by (auto simp: n_min_def min_def)

lemma riskScore_spec:
  assumes "s_risks s \<noteq> []"
    and "\<forall>r\<in>set (s_risks s). \<exists>p. r_probability r = Fin p \<and> 0 \<le> p \<and> p \<le> 1"
  shows "calculateRiskScore s = Fin (spec_riskScore (s_risks s)) \<and>
         0 \<le> spec_riskScore (s_risks s) \<and> spec_riskScore (s_risks s) \<le> 1"
proof -
  let ?S = "\<Sum>r\<leftarrow>s_risks s. finite_value (r_probability r) * spec_impactWeight (r_impact r)"
  let ?n = "real (length (s_risks s))"
  have n: "0 < ?n" using assms(1) by simp
  from assms(2) have f: "\<forall>r\<in>set (s_risks s). \<exists>p. r_probability r = Fin p" by blast
  have b: "0 \<le> ?S \<and> ?S \<le> ?n" by (rule risk_sum_bounds [OF assms(2)])
  with n have q: "0 \<le> ?S / ?n \<and> ?S / ?n \<le> 1" by simp
  have "max 0 (min 1 x) = x" if "0 \<le> x \<and> x \<le> 1" for x :: real
    using that by (simp add: max_def min_def)
  from this [OF q] have sp: "spec_riskScore (s_risks s) = ?S / ?n"
    unfolding spec_riskScore_def .
  have "calculateRiskScore s = n_min (n_div (Fin ?S) (Fin ?n)) (Fin 1)"
    using risk_sum [OF f, of 0] by (simp add: calculateRiskScore_def of_count_def)
  also have "\<dots> = n_min (Fin (?S / ?n)) (Fin 1)"
    using n by simp
  also have "\<dots> = Fin (min (?S / ?n) 1)"
    by (rule n_min_Fin)
  also have "min (?S / ?n) 1 = ?S / ?n"
    using q by (simp only: min_def if_True)
  finally show ?thesis using sp q by simp
qed

lemma insertWith_set: "set (insertWith cmp x xs) = insert x (set xs)"
  by (induction xs) auto

lemma sortWith_set: "set (sortWith cmp xs) = set xs"
  unfolding sortWith_def by (induction xs) (simp_all add: insertWith_set)

lemma isSolutionRelatedToPattern_seed:
  "isSolutionRelatedToPattern (s\<lparr>s_confidence := seed\<rparr>) = isSolutionRelatedToPattern s"
  by (rule ext) (simp add: isSolutionRelatedToPattern_def)

lemma estimateSuccessRateFromPatterns_seed:
  "estimateSuccessRateFromPatterns pats (s\<lparr>s_confidence := seed\<rparr>) =
   estimateSuccessRateFromPatterns pats s"
  by (simp add: estimateSuccessRateFromPatterns_def isSolutionRelatedToPattern_seed)

lemma calculateSuccessRate_seed:
  "calculateSuccessRate pats (s\<lparr>s_confidence := seed\<rparr>) ls = calculateSuccessRate pats s ls"
  by (simp add: calculateSuccessRate_def isSimilarSolution_def estimateSuccessRateFromPatterns_seed
        Let_def)

lemma evaluateSolution_seed: "evaluateSolution st (s\<lparr>s_confidence := seed\<rparr>) = evaluateSolution st s"
  by (simp add: evaluateSolution_def calculateSuccessRate_seed calculateRiskScore_def)

text \<open>
  C2. For a candidate with at least one risk, every probability a number between 0 and
  1, the risk score the code computes is the mean of probability times impact weight
  (1, 0.5, 0.2), a number of the unit interval, so that clamping leaves it alone; with
  a finite historical success \<open>h\<close> the recomputed confidence is
  \<open>0.7 * h + 0.3 * (1 - riskScore)\<close>. The confidence the generator had assigned does not
  enter the result, and the ranking consists of exactly the re-evaluated candidates.
  The claim does not hold of a candidate without risks, such as the template-based
  one: its recomputed confidence is \<^verbatim>\<open>NaN\<close> in every state.
\<close>

theorem C2_confidence_formula:
  "(s_risks s \<noteq> [] \<and>
    (\<forall>r\<in>set (s_risks s). \<exists>p. r_probability r = Fin p \<and> 0 \<le> p \<and> p \<le> 1) \<longrightarrow>
      calculateRiskScore s = Fin (spec_riskScore (s_risks s)) \<and>
      0 \<le> spec_riskScore (s_risks s) \<and> spec_riskScore (s_risks s) \<le> 1 \<and>
      (\<forall>h. calculateSuccessRate (le_patterns (ctl_learningEngine st)) s (ctl_learnings st) = Fin h \<longrightarrow>
         s_confidence (evaluateSolution st s) =
           Fin (spec_confidence h (spec_riskScore (s_risks s))))) \<and>
   evaluateSolution st (s\<lparr>s_confidence := seed\<rparr>) = evaluateSolution st s \<and>
   set (evaluateSolutions st ch sols) = evaluateSolution st ` set sols \<and>
   s_risks ex_template_solution = [] \<and>
   s_confidence (evaluateSolution st ex_template_solution) = NaN"
proof (intro conjI impI allI)
  assume a: "s_risks s \<noteq> [] \<and>
    (\<forall>r\<in>set (s_risks s). \<exists>p. r_probability r = Fin p \<and> 0 \<le> p \<and> p \<le> 1)"
  then have r: "calculateRiskScore s = Fin (spec_riskScore (s_risks s)) \<and>
         0 \<le> spec_riskScore (s_risks s) \<and> spec_riskScore (s_risks s) \<le> 1"
    using riskScore_spec [of s] by blast
  then show "calculateRiskScore s = Fin (spec_riskScore (s_risks s))"
    and "0 \<le> spec_riskScore (s_risks s)" and "spec_riskScore (s_risks s) \<le> 1"
    by simp_all
  fix h
  assume "calculateSuccessRate (le_patterns (ctl_learningEngine st)) s (ctl_learnings st) = Fin h"
  with r show "s_confidence (evaluateSolution st s) =
           Fin (spec_confidence h (spec_riskScore (s_risks s)))"
    by (simp add: evaluateSolution_def spec_confidence_def n_sub_def algebra_simps)
next
  show "evaluateSolution st (s\<lparr>s_confidence := seed\<rparr>) = evaluateSolution st s"
    by (rule evaluateSolution_seed)
  show "set (evaluateSolutions st ch sols) = evaluateSolution st ` set sols"
    by (simp add: evaluateSolutions_def sortWith_set)
  show e: "s_risks ex_template_solution = []"
    by (simp add: ex_template_solution_def createSolutionFromTemplate_def)
  show "s_confidence (evaluateSolution st ex_template_solution) = NaN"
    by (rule confidence_empty [OF e])
qed

text \<open>
  The example candidate: one low-impact risk of probability 0.25 (risk score 0.05) and
  a historical success of 0.75 give the confidence 0.81.
\<close>

theorem C2_witness:
  "s_risks ex_solution \<noteq> [] \<and>
   calculateSuccessRate (le_patterns (ctl_learningEngine ex_recorded)) ex_solution
     (ctl_learnings ex_recorded) = Fin 0.75 \<and>
   calculateRiskScore ex_solution = Fin 0.05 \<and>
   s_confidence (evaluateSolution ex_recorded ex_solution) = Fin 0.81"
proof -
  have n: "s_risks ex_solution \<noteq> []"
    and p: "\<forall>r\<in>set (s_risks ex_solution). \<exists>p. r_probability r = Fin p \<and> 0 \<le> p \<and> p \<le> 1"
    by (auto simp add: ex_solution_def intro!: exI [of _ "1 / 4"])
  have h: "calculateSuccessRate (le_patterns (ctl_learningEngine ex_recorded)) ex_solution
     (ctl_learnings ex_recorded) = Fin 0.75"
    by (simp add: calculateSuccessRate_def isSimilarSolution_def ex_recorded_def ex_state_def
          ex_history_def ex_learning_def ex_solution_def of_count_def Let_def)
  have s: "spec_riskScore (s_risks ex_solution) = 0.05"
    by (simp add: spec_riskScore_def ex_solution_def finite_value_def spec_impactWeight_def)
  from C2_confidence_formula [where s = ex_solution and st = ex_recorded] n p h
  have "calculateRiskScore ex_solution = Fin (spec_riskScore (s_risks ex_solution)) \<and>
      s_confidence (evaluateSolution ex_recorded ex_solution) =
        Fin (spec_confidence 0.75 (spec_riskScore (s_risks ex_solution)))"
    by blast
  then show ?thesis
    using n h by (simp add: s spec_confidence_def)
qed

subsection \<open>Receiving a knowledge package\<close>

lemma forEachM_write:
  assumes "\<forall>x\<in>set xs. \<not> fails (path x)"
  shows "forEachM (\<lambda>x k. writeFile fails (path x) (doc x) k) xs kt =
     (None, kt\<lparr>kt_files := writeAll (map (\<lambda>x. (path x, doc x)) xs) (kt_files kt)\<rparr>)"
  using assms
proof (induction xs arbitrary: kt)
  case Nil
  then show ?case by (simp add: writeAll_def)
next
  case (Cons x xs)
  then show ?case by (simp add: writeFile_def writeAll_def)
qed

lemma forEachM_write_error:
  "fst (forEachM (\<lambda>x k. writeFile fails (path x) (doc x) k) xs kt) \<noteq> Some (IncompatibleVersion v)"
proof (induction xs arbitrary: kt)
  case Nil
  then show ?case by simp
next
  case (Cons x xs)
  then show ?case by (simp add: writeFile_def)
qed

lemma writeAll_append: "writeAll (xs @ ys) fs = writeAll ys (writeAll xs fs)"
  by (simp add: writeAll_def)

lemma writeAll_keys: "set (map fst (writeAll docs fs)) = set (map fst fs) \<union> set (map fst docs)"
proof (induction docs arbitrary: fs)
  case Nil
  then show ?case by (simp add: writeAll_def)
next
  case (Cons d docs)
  have "writeAll (d # docs) fs = writeAll docs (AList.update (fst d) (snd d) fs)"
    by (simp add: writeAll_def split_beta)
  with Cons [of "AList.update (fst d) (snd d) fs"] show ?case
    by (auto simp: update_keys)
qed

lemma integrateKnowledge_no_version_error:
  "fst (integrateKnowledge fails now pkg kt) \<noteq> Some (IncompatibleVersion v)"
proof -
  have p: "fst (integratePatterns fails ps k) \<noteq> Some (IncompatibleVersion v)" for ps k
    using forEachM_write_error
      [of fails "\<lambda>p. ''knowledge-base/patterns/'' @ p_id p @ ''.json''" PatternDoc ps k v]
    by (simp add: integratePatterns_def findSimilarPattern_def savePattern_def)
  have s: "fst (adaptSolutions fails ss k) \<noteq> Some (IncompatibleVersion v)" for ss k
    using forEachM_write_error
      [of fails "\<lambda>s. ''knowledge-base/solutions/'' @ s_id (adaptSolutionToLocal s) @ ''.json''"
          "\<lambda>s. SolutionDoc (adaptSolutionToLocal s)" ss k v]
    by (simp add: adaptSolutions_def saveSolution_def)
  have l: "fst (recordTransferredLearnings fails now ls k) \<noteq> Some (IncompatibleVersion v)" for ls k
    using forEachM_write_error
      [of fails "\<lambda>l. ''knowledge-base/learnings/'' @ l_id l @ ''.json''"
          "\<lambda>l. LearningDoc l (Some \<lparr>tm_transferred = True, tm_transferDate = now,
                 tm_originalSystem = firstComponent CHR ''_'' (l_id l)\<rparr>)" ls k v]
    by (simp add: recordTransferredLearnings_def saveTransferredLearning_def)
  have p': "integratePatterns fails ps k \<noteq> (Some (IncompatibleVersion v), k')" for ps k k'
    using p [of ps k] by auto
  have s': "adaptSolutions fails ss k \<noteq> (Some (IncompatibleVersion v), k')" for ss k k'
    using s [of ss k] by auto
  have l': "recordTransferredLearnings fails now ls k \<noteq> (Some (IncompatibleVersion v), k')" for ls k k'
    using l [of ls k] by auto
  show ?thesis
    using p' s' l
    by (auto simp: integrateKnowledge_def split: prod.splits option.splits)
qed

lemma integrateKnowledge_writes:
  assumes "\<forall>path. \<not> fails path"
  shows "integrateKnowledge fails now pkg kt =
     (None, kt\<lparr>kt_files := writeAll (packageDocuments now pkg) (kt_files kt)\<rparr>)"
proof -
  have p: "integratePatterns fails ps k =
      (None, k\<lparr>kt_files := writeAll
         (map (\<lambda>p. (''knowledge-base/patterns/'' @ p_id p @ ''.json'', PatternDoc p)) ps) (kt_files k)\<rparr>)"
    for ps k
    using forEachM_write
      [of ps fails "\<lambda>p. ''knowledge-base/patterns/'' @ p_id p @ ''.json''" PatternDoc k] assms
    by (simp add: integratePatterns_def findSimilarPattern_def savePattern_def)
  have s: "adaptSolutions fails ss k =
      (None, k\<lparr>kt_files := writeAll
         (map (\<lambda>s. (''knowledge-base/solutions/adapted_'' @ s_id s @ ''.json'',
               SolutionDoc (s\<lparr>s_id := ''adapted_'' @ s_id s,
                              s_confidence := n_mul (s_confidence s) (Fin 0.9)\<rparr>))) ss) (kt_files k)\<rparr>)"
    for ss k
    using forEachM_write
      [of ss fails "\<lambda>s. ''knowledge-base/solutions/'' @ s_id (adaptSolutionToLocal s) @ ''.json''"
          "\<lambda>s. SolutionDoc (adaptSolutionToLocal s)" k] assms
    by (simp add: adaptSolutions_def saveSolution_def adaptSolutionToLocal_def)
  have l: "recordTransferredLearnings fails now ls k =
      (None, k\<lparr>kt_files := writeAll
         (map (\<lambda>l. (''knowledge-base/learnings/'' @ l_id l @ ''.json'',
               LearningDoc l (Some \<lparr>tm_transferred = True, tm_transferDate = now,
                                     tm_originalSystem = takeWhile (\<lambda>c. c \<noteq> CHR ''_'') (l_id l)\<rparr>))) ls)
         (kt_files k)\<rparr>)"
    for ls k
    using forEachM_write
      [of ls fails "\<lambda>l. ''knowledge-base/learnings/'' @ l_id l @ ''.json''"
          "\<lambda>l. LearningDoc l (Some \<lparr>tm_transferred = True, tm_transferDate = now,
                 tm_originalSystem = firstComponent CHR ''_'' (l_id l)\<rparr>)" k] assms
    by (simp add: recordTransferredLearnings_def saveTransferredLearning_def firstComponent_def)
  show ?thesis
    by (simp add: integrateKnowledge_def p s l packageDocuments_def writeAll_append)
qed
text \<open>
  C8. \<open>receivePackage\<close> is rejected with the incompatible-version error exactly when
  the text before the first dot of the package's version differs from that of the
  local compatibility version; no other error of \<open>receivePackage\<close> is an
  incompatible-version error, and a rejected package leaves the local state as it was.
  The local version is \<^verbatim>\<open>1.0.0\<close>: a package of version \<^verbatim>\<open>2.0.0\<close> is rejected, and one of
  version \<^verbatim>\<open>1.3.0\<close> is accepted and, when no write fails, integrated: the documents of
  its patterns, adapted solutions and learnings are written.
\<close>

theorem C8_version_gate:
  "(fst (receivePackage fails now pkg kt) = Some (IncompatibleVersion (k_version pkg))) =
     (firstComponent CHR ''.'' (k_version pkg) \<noteq> firstComponent CHR ''.'' (kt_compatibilityVersion kt)) \<and>
   (\<forall>v. fst (receivePackage fails now pkg kt) = Some (IncompatibleVersion v) \<longrightarrow>
        v = k_version pkg \<and> snd (receivePackage fails now pkg kt) = kt) \<and>
   kt_compatibilityVersion initialTransfer = ''1.0.0'' \<and>
   receivePackage fails now (pkg\<lparr>k_version := ''2.0.0''\<rparr>) initialTransfer =
     (Some (IncompatibleVersion ''2.0.0''), initialTransfer) \<and>
   fst (receivePackage fails now (pkg\<lparr>k_version := ''1.3.0''\<rparr>) initialTransfer) \<noteq>
     Some (IncompatibleVersion v') \<and>
   ((\<forall>path. \<not> fails path) \<longrightarrow>
      receivePackage fails now (pkg\<lparr>k_version := ''1.3.0''\<rparr>) initialTransfer =
        (None, initialTransfer\<lparr>kt_files := writeAll (packageDocuments now pkg) []\<rparr>) \<and>
      set (map fst (kt_files (snd (receivePackage fails now (pkg\<lparr>k_version := ''1.3.0''\<rparr>)
             initialTransfer)))) = set (map fst (packageDocuments now pkg)))"
proof -
  have iff: "(fst (receivePackage fails now pkg kt) = Some (IncompatibleVersion (k_version pkg))) =
     (firstComponent CHR ''.'' (k_version pkg) \<noteq> firstComponent CHR ''.'' (kt_compatibilityVersion kt))"
    using integrateKnowledge_no_version_error [of fails now pkg kt "k_version pkg"]
    by (simp add: receivePackage_def isVersionCompatible_def Let_def)
  have unchanged: "\<forall>v. fst (receivePackage fails now pkg kt) = Some (IncompatibleVersion v) \<longrightarrow>
        v = k_version pkg \<and> snd (receivePackage fails now pkg kt) = kt"
    using integrateKnowledge_no_version_error [of fails now pkg kt]
    by (simp add: receivePackage_def)
  have two: "receivePackage fails now (pkg\<lparr>k_version := ''2.0.0''\<rparr>) initialTransfer =
     (Some (IncompatibleVersion ''2.0.0''), initialTransfer)"
    by (simp add: receivePackage_def isVersionCompatible_def initialTransfer_def firstComponent_def)
  have c: "isVersionCompatible initialTransfer ''1.3.0''"
    by (simp add: isVersionCompatible_def initialTransfer_def firstComponent_def)
  have three: "fst (receivePackage fails now (pkg\<lparr>k_version := ''1.3.0''\<rparr>) initialTransfer) \<noteq>
     Some (IncompatibleVersion v')"
    using c integrateKnowledge_no_version_error
      [of fails now "pkg\<lparr>k_version := ''1.3.0''\<rparr>" initialTransfer v']
    by (simp add: receivePackage_def)
  have d: "packageDocuments now (pkg\<lparr>k_version := ''1.3.0''\<rparr>) = packageDocuments now pkg"
    by (simp add: packageDocuments_def)
  have integrated: "receivePackage fails now (pkg\<lparr>k_version := ''1.3.0''\<rparr>) initialTransfer =
        (None, initialTransfer\<lparr>kt_files := writeAll (packageDocuments now pkg) []\<rparr>) \<and>
      set (map fst (kt_files (snd (receivePackage fails now (pkg\<lparr>k_version := ''1.3.0''\<rparr>)
             initialTransfer)))) = set (map fst (packageDocuments now pkg))"
    if "\<forall>path. \<not> fails path"
    using c integrateKnowledge_writes [OF that, of now "pkg\<lparr>k_version := ''1.3.0''\<rparr>" initialTransfer]
      writeAll_keys [of "packageDocuments now pkg" "[]"]
    by (simp add: receivePackage_def d initialTransfer_def)
  have local: "kt_compatibilityVersion initialTransfer = ''1.0.0''"
    by (simp add: initialTransfer_def)
  show ?thesis
    using iff unchanged two three integrated local by blast
qed

text \<open>
  The example package (version \<^verbatim>\<open>1.3.0\<close>, one solution, one learning) is integrated
  into two documents; the same package stamped \<^verbatim>\<open>2.0.0\<close> is rejected.
\<close>

theorem C8_witness:
  "fst (receivePackage (\<lambda>path. False) 4000 ex_package initialTransfer) = None \<and>
   map fst (kt_files (snd (receivePackage (\<lambda>path. False) 4000 ex_package initialTransfer))) =
     [''knowledge-base/solutions/adapted_s1.json'', ''knowledge-base/learnings/peer_l1.json''] \<and>
   receivePackage (\<lambda>path. False) 4000 (ex_package\<lparr>k_version := ''2.0.0''\<rparr>) initialTransfer =
     (Some (IncompatibleVersion ''2.0.0''), initialTransfer)"
proof -
  have v: "ex_package\<lparr>k_version := ''1.3.0''\<rparr> = ex_package"
    by (simp add: ex_package_def)
  have k: "map fst (writeAll (packageDocuments 4000 ex_package) []) =
     [''knowledge-base/solutions/adapted_s1.json'', ''knowledge-base/learnings/peer_l1.json'']"
    by (simp add: packageDocuments_def ex_package_def writeAll_def ex_solution_def ex_learning_def)
  from C8_version_gate [where fails = "\<lambda>path. False" and now = 4000 and pkg = ex_package]
  show ?thesis
    by (simp add: v k)
qed

subsection \<open>Pattern statistics and pattern extraction\<close>

lemma findRelatedPatterns_stub: "findRelatedPatterns findChallengeById pats l = []"
  by (simp add: findRelatedPatterns_def findChallengeById_def)

lemma forRelated_Nil: "forRelated f [] pats = pats"
  by (induction pats) (auto simp: forRelated_def)

lemma updateExistingPatterns_stub: "updateExistingPatterns findChallengeById pats ls = pats"
  by (induction ls arbitrary: pats)
     (simp_all add: updateExistingPatterns_def findRelatedPatterns_stub forRelated_Nil)

lemma groupSuccessfulLearnings_stub: "groupSuccessfulLearnings findChallengeById ls = []"
proof -
  have "foldl (\<lambda>groups learning.
         if l_outcome learning \<noteq> Success then groups
         else (case findChallengeById (l_challengeId learning) of
                 None \<Rightarrow> groups
               | Some challenge \<Rightarrow>
                   let key = generateGroupKey challenge learning in
                   (case map_of groups key of
                      None \<Rightarrow> groups @ [(key, [learning])]
                    | Some g \<Rightarrow> AList.update key (g @ [learning]) groups))) acc ls = acc" for acc
    by (induction ls arbitrary: acc) (simp_all add: findChallengeById_def)
  then show ?thesis by (simp add: groupSuccessfulLearnings_def)
qed

lemma extractPatterns_stub:
  "extractPatterns findChallengeById findSolutionById mk eng ls = ([], eng)"
  by (simp add: extractPatterns_def groupSuccessfulLearnings_stub updateExistingPatterns_stub)

lemma ex_groups:
  "groupSuccessfulLearnings ex_findChallenge ex_three = [(''performance_high_success'', ex_three)]"
  by (simp add: groupSuccessfulLearnings_def ex_three_def ex_learning_def ex_findChallenge_def
        generateGroupKey_def ex_challenge_def Let_def)
lemma ex_three_rate: "calculateGroupSuccessRate ex_three = Fin 0.8"
  by (simp add: calculateGroupSuccessRate_def ex_three_def ex_learning_def positive_def
        of_count_def n_min_def)

lemma ex_three_trigger:
  "t_metrics (extractCommonTrigger ex_findChallenge ex_three) =
     [\<lparr>mc_metric = ''cpu'', mc_operator = Op_gt, mc_value = Fin 76, mc_duration = Some (Fin 300)\<rparr>]"
  by (simp add: extractCommonTrigger_def contextMetricConditions_def deduplicateMetrics_def
        getProp_def ex_three_def ex_learning_def ex_findChallenge_def Let_def)

lemma ex_three_pattern:
  "\<exists>p. createPatternFromGroup ex_findChallenge ex_findSolution ''pattern_1''
          ''performance_high_success'' ex_three = Some p \<and>
       p_id p = ''pattern_1'' \<and> p_successRate p = Fin 0.8 \<and> p_usageCount p = Fin 3 \<and>
       t_metrics (p_trigger p) =
         [\<lparr>mc_metric = ''cpu'', mc_operator = Op_gt, mc_value = Fin 76, mc_duration = Some (Fin 300)\<rparr>]"
proof -
  have "ex_three = ex_learning ''l1'' Success # tl ex_three"
    by (simp add: ex_three_def)
  then have c: "(case ex_three of [] \<Rightarrow> a | x # xs \<Rightarrow> b x xs) = b (ex_learning ''l1'' Success) (tl ex_three)" for a :: "'z" and b
    by (metis list.simps(5))
  have n: "of_count (length ex_three) = Fin 3"
    by (simp add: ex_three_def of_count_def)
  show ?thesis
    unfolding createPatternFromGroup_def c
    by (simp add: ex_three_rate ex_three_trigger n ex_learning_def ex_findChallenge_def
        ex_findSolution_def)
qed

lemma ex_three_related:
  "t_metrics (p_trigger p) =
     [\<lparr>mc_metric = ''cpu'', mc_operator = Op_gt, mc_value = Fin b, mc_duration = d\<rparr>] \<Longrightarrow>
   b < 95 \<Longrightarrow> l_challengeId l = ''c0'' \<Longrightarrow> relatedTo ex_findChallenge l p"
  by (simp add: relatedTo_def ex_findChallenge_def matchesPatternTrigger_def getProp_def n_le_def)
lemma forRelated_eq:
  "forRelated f (findRelatedPatterns fc pats l) pats =
     map (\<lambda>(k, p). (k, if relatedTo fc l p then f p else p)) pats"
proof -
  have "(k, p) \<in> set pats \<Longrightarrow>
        (p \<in> set (findRelatedPatterns fc pats l)) = relatedTo fc l p" for k p
    by (force simp: findRelatedPatterns_def relatedTo_def split: option.splits)
  then show ?thesis
    unfolding forRelated_def by (intro map_cong) auto
qed

lemma updateExistingPatterns_one:
  "updateExistingPatterns fc pats [l] =
     map (\<lambda>(k, p). (k, if relatedTo fc l p then reweigh l p else p)) pats"
  by (simp add: updateExistingPatterns_def forRelated_eq)

lemma reweigh_shape:
  "p_id (reweigh l p) = p_id p \<and> p_usageCount (reweigh l p) = p_usageCount p \<and>
   p_trigger (reweigh l p) = p_trigger p"
  by (simp add: reweigh_def Let_def)

lemma updateExistingPatterns_shape:
  "map (\<lambda>(k, p). (k, p_id p, p_usageCount p, p_trigger p)) (updateExistingPatterns fc pats ls) =
   map (\<lambda>(k, p). (k, p_id p, p_usageCount p, p_trigger p)) pats"
proof (induction ls arbitrary: pats)
  case Nil
  then show ?case by (simp add: updateExistingPatterns_def)
next
  case (Cons l ls)
  have "updateExistingPatterns fc pats (l # ls) =
        updateExistingPatterns fc (updateExistingPatterns fc pats [l]) ls"
    by (simp add: updateExistingPatterns_def)
  moreover have "map (\<lambda>(k, p). (k, p_id p, p_usageCount p, p_trigger p))
        (updateExistingPatterns fc pats [l]) =
      map (\<lambda>(k, p). (k, p_id p, p_usageCount p, p_trigger p)) pats"
    by (simp add: updateExistingPatterns_one split_beta reweigh_shape)
  ultimately show ?case
    using Cons [of "updateExistingPatterns fc pats [l]"] by simp
qed

lemma reinforce_real:
  assumes "p_successRate p = Fin s" and "p_usageCount p = Fin u" and "u + 1 \<noteq> 0"
  shows "reinforce l p =
     p\<lparr>p_successRate :=
         Fin (case l_outcome l of
                Success \<Rightarrow> (s * u + 1) / (u + 1)
              | Failure \<Rightarrow> s * u / (u + 1)
              | Partial \<Rightarrow> s),
       p_usageCount := Fin (u + 1)\<rparr>"
  using assms by (cases "l_outcome l") (simp_all add: reinforce_def)

lemma reweigh_real:
  assumes "p_successRate p = Fin s"
  shows "reweigh l p =
     p\<lparr>p_successRate := Fin (s * (1 - 0.1) + (if l_outcome l = Success then 1 else 0) * 0.1)\<rparr>"
  using assms by (simp add: reweigh_def n_sub_def)

lemma small_groups_no_pattern:
  assumes "\<forall>(key, grp)\<in>set groups. length grp < 3"
  shows "foldl (\<lambda>(new, ps) (key, grp).
                if 3 \<le> length grp
                then (case createPatternFromGroup fc fs (mk key) key grp of
                        Some pattern \<Rightarrow>
                          if n_ge (p_successRate pattern) successThreshold
                          then (new @ [pattern], AList.update (p_id pattern) pattern ps)
                          else (new, ps)
                      | None \<Rightarrow> (new, ps))
                else (new, ps)) (new0, ps0) groups = (new0, ps0)"
  using assms by (induction groups) auto

lemma extractPatterns_small:
  assumes "\<forall>(key, grp)\<in>set (groupSuccessfulLearnings fc ls). length grp < 3"
  shows "fst (extractPatterns fc fs mk eng ls) = []"
  by (simp add: extractPatterns_def small_groups_no_pattern [OF assms])
lemma ex_extract:
  "\<exists>p. fst (extractPatterns ex_findChallenge ex_findSolution (\<lambda>key. ''pattern_1'')
              ex_pattern_engine ex_three) = [p] \<and>
       p_id p = ''pattern_1'' \<and> p_usageCount p = Fin 3 \<and>
       map fst (le_patterns (snd (extractPatterns ex_findChallenge ex_findSolution
              (\<lambda>key. ''pattern_1'') ex_pattern_engine ex_three))) = [''high-cpu-scale'', ''pattern_1''] \<and>
       map_of (le_patterns (snd (extractPatterns ex_findChallenge ex_findSolution
              (\<lambda>key. ''pattern_1'') ex_pattern_engine ex_three))) ''pattern_1'' = Some p"
proof -
  from ex_three_pattern obtain p0 where p0:
    "createPatternFromGroup ex_findChallenge ex_findSolution ''pattern_1''
          ''performance_high_success'' ex_three = Some p0"
    "p_id p0 = ''pattern_1''" "p_successRate p0 = Fin 0.8" "p_usageCount p0 = Fin 3"
    by blast
  let ?ps1 = "[(''high-cpu-scale'', ex_pattern), (''pattern_1'', p0)]"
  let ?ps2 = "updateExistingPatterns ex_findChallenge ?ps1 ex_three"
  have three: "3 \<le> length ex_three"
    by (simp add: ex_three_def)
  have e: "extractPatterns ex_findChallenge ex_findSolution (\<lambda>key. ''pattern_1'')
              ex_pattern_engine ex_three =
           (resync ?ps2 [p0], ex_pattern_engine\<lparr>le_patterns := ?ps2\<rparr>)"
    using p0 three
    by (simp add: extractPatterns_def ex_groups successThreshold_def ex_pattern_engine_def Let_def)
  from updateExistingPatterns_shape [of ex_findChallenge ?ps1 ex_three] p0
  obtain q1 q2 where q: "?ps2 = [(''high-cpu-scale'', q1), (''pattern_1'', q2)]"
    "p_id q2 = ''pattern_1''" "p_usageCount q2 = Fin 3"
    by (auto simp: map_eq_Cons_conv)
  show ?thesis
    unfolding e q(1) using q(2,3) p0(2) by simp
qed

text \<open>
  C5. The code does not do what the claim says of groups of three or more. With the
  source's lookups \<open>extractPatterns\<close> returns no pattern and leaves the engine as it
  was, for every engine and every list of learnings: \<open>findChallengeById\<close> answers
  \<^verbatim>\<open>null\<close>, so no learning enters a group. The three successful example learnings share
  challenge type, severity and outcome and have success rate 0.8; over lookups that
  find their challenge and solution the same function does produce and register one
  pattern of usage count 3. The first half of the claim holds for every lookup: when
  every group has fewer than three members, no pattern is produced.
\<close>

theorem C5_extractPatterns:
  "extractPatterns findChallengeById findSolutionById mk eng learnings = ([], eng) \<and>
   calculateGroupSuccessRate ex_three = Fin 0.8 \<and>
   fst (extractPatterns findChallengeById findSolutionById mk ex_pattern_engine ex_three) = [] \<and>
   (\<exists>p. fst (extractPatterns ex_findChallenge ex_findSolution (\<lambda>key. ''pattern_1'')
              ex_pattern_engine ex_three) = [p] \<and>
        p_id p = ''pattern_1'' \<and> p_usageCount p = Fin 3 \<and>
        map_of (le_patterns (snd (extractPatterns ex_findChallenge ex_findSolution
              (\<lambda>key. ''pattern_1'') ex_pattern_engine ex_three))) ''pattern_1'' = Some p) \<and>
   ((\<forall>(key, grp)\<in>set (groupSuccessfulLearnings fc ls). length grp < 3) \<longrightarrow>
      fst (extractPatterns fc fs mk' eng' ls) = [])"
  using ex_extract extractPatterns_small [of fc ls fs mk' eng']
  by (simp add: extractPatterns_stub ex_three_rate) blast

text \<open>
  Two of the three example learnings form a group of exactly two, from which no
  pattern is produced even over the lookups that find their challenge and solution.
\<close>

theorem C5_witness:
  "groupSuccessfulLearnings ex_findChallenge (take 2 ex_three) =
     [(''performance_high_success'', take 2 ex_three)] \<and>
   length (take 2 ex_three) = 2 \<and>
   fst (extractPatterns ex_findChallenge ex_findSolution (\<lambda>key. ''pattern_1'') ex_pattern_engine
          (take 2 ex_three)) = []"
proof -
  have g: "groupSuccessfulLearnings ex_findChallenge (take 2 ex_three) =
     [(''performance_high_success'', take 2 ex_three)]"
    by (simp add: groupSuccessfulLearnings_def ex_three_def ex_learning_def ex_findChallenge_def
        generateGroupKey_def ex_challenge_def Let_def)
  have l: "length (take 2 ex_three) = 2"
    by (simp add: ex_three_def)
  from C5_extractPatterns [where fc = ex_findChallenge and ls = "take 2 ex_three"
      and fs = ex_findSolution and mk' = "\<lambda>key. ''pattern_1''" and eng' = ex_pattern_engine]
  have "fst (extractPatterns ex_findChallenge ex_findSolution (\<lambda>key. ''pattern_1'') ex_pattern_engine
          (take 2 ex_three)) = []"
    unfolding g using l by simp
  with g l show ?thesis by simp
qed
lemma ex_pattern_related: "relatedTo ex_findChallenge (ex_learning i out) ex_pattern"
  by (rule ex_three_related [where b = 80]) (simp_all add: ex_pattern_def ex_learning_def)

text \<open>
  C4 as stated fails. With the source's lookups a success on the challenge \<^verbatim>\<open>c0\<close>
  (raised at 95% CPU) leaves the matching pattern at success rate 0.85 and usage count
  0; over lookups that find the challenge, \<open>updateKnowledge\<close> moves it to success rate
  1 and usage count 1: the running mean \<open>(0.85 * 0 + 1) / (0 + 1)\<close>, not
  \<open>0.85 * 0.9 + 1 * 0.1 = 0.865\<close>.
\<close>

theorem C4_counterexample:
  "map (\<lambda>(k, p). (p_successRate p, p_usageCount p))
     (le_patterns (updateKnowledge findChallengeById findSolutionById (\<lambda>key. ''pattern_1'')
        ex_pattern_engine (ex_learning ''l1'' Success))) = [(Fin 0.85, Fin 0)] \<and>
   map (\<lambda>(k, p). (p_successRate p, p_usageCount p))
     (le_patterns (updateKnowledge ex_findChallenge ex_findSolution (\<lambda>key. ''pattern_1'')
        ex_pattern_engine (ex_learning ''l1'' Success))) = [(Fin 1, Fin 1)] \<and>
   relatedTo ex_findChallenge (ex_learning ''l1'' Success) ex_pattern \<and>
   0.85 * (1 - 0.1) + 1 * 0.1 = (0.865 :: real)"
  using ex_pattern_related [of "''l1''" Success]
  by (simp add: updateKnowledge_def findRelatedPatterns_stub forRelated_Nil forRelated_eq
        ex_pattern_engine_def Let_def)
     (simp add: reinforce_def ex_pattern_def ex_learning_def)

text \<open>
  C4, amended. \<open>updateKnowledge\<close> appends the learning to the history. Unless the
  history has then reached a multiple of ten, the pattern map keeps its keys and every
  pattern related to the learning (its trigger matches the challenge the lookup finds)
  is replaced by its reinforcement, every other pattern staying as it is; on every tenth
  learning \<open>extractPatterns\<close> is run on that state over the last fifty learnings. For
  finite statistics the reinforcement sets the success rate to the running mean,
  \<open>(s * u + 1) / (u + 1)\<close> after a success and \<open>s * u / (u + 1)\<close> after a failure (a
  partial outcome leaves it), and adds one to the usage count. The update with the
  fixed weight 0.1 is the one \<open>updateExistingPatterns\<close> applies, and it leaves the usage
  count alone.
\<close>

theorem C4_updateKnowledge:
  "le_learningHistory (updateKnowledge fc fs mk eng l) = le_learningHistory eng @ [l] \<and>
   (length (le_learningHistory eng @ [l]) mod 10 \<noteq> 0 \<longrightarrow>
      le_patterns (updateKnowledge fc fs mk eng l) =
        map (\<lambda>(k, p). (k, if relatedTo fc l p then reinforce l p else p)) (le_patterns eng)) \<and>
   (length (le_learningHistory eng @ [l]) mod 10 = 0 \<longrightarrow>
      updateKnowledge fc fs mk eng l =
        snd (extractPatterns fc fs mk
               (eng\<lparr>le_learningHistory := le_learningHistory eng @ [l],
                    le_patterns :=
                      map (\<lambda>(k, p). (k, if relatedTo fc l p then reinforce l p else p))
                        (le_patterns eng)\<rparr>)
               (drop (length (le_learningHistory eng @ [l]) - 50) (le_learningHistory eng @ [l])))) \<and>
   (p_successRate p = Fin s \<and> p_usageCount p = Fin u \<and> u + 1 \<noteq> 0 \<longrightarrow>
      reinforce l p =
        p\<lparr>p_successRate :=
            Fin (case l_outcome l of
                   Success \<Rightarrow> (s * u + 1) / (u + 1)
                 | Failure \<Rightarrow> s * u / (u + 1)
                 | Partial \<Rightarrow> s),
          p_usageCount := Fin (u + 1)\<rparr>) \<and>
   updateExistingPatterns fc pats [l] =
     map (\<lambda>(k, p). (k, if relatedTo fc l p then reweigh l p else p)) pats \<and>
   (p_successRate p = Fin s \<longrightarrow>
      reweigh l p =
        p\<lparr>p_successRate := Fin (s * (1 - 0.1) + (if l_outcome l = Success then 1 else 0) * 0.1)\<rparr>)"
proof (intro conjI impI)
  show "le_learningHistory (updateKnowledge fc fs mk eng l) = le_learningHistory eng @ [l]"
    by (simp add: updateKnowledge_def extractPatterns_def Let_def split_beta)
  show "updateExistingPatterns fc pats [l] =
     map (\<lambda>(k, p). (k, if relatedTo fc l p then reweigh l p else p)) pats"
    by (rule updateExistingPatterns_one)
next
  assume "length (le_learningHistory eng @ [l]) mod 10 \<noteq> 0"
  then show "le_patterns (updateKnowledge fc fs mk eng l) =
        map (\<lambda>(k, p). (k, if relatedTo fc l p then reinforce l p else p)) (le_patterns eng)"
    by (simp add: updateKnowledge_def forRelated_eq Let_def)
next
  assume "length (le_learningHistory eng @ [l]) mod 10 = 0"
  then show "updateKnowledge fc fs mk eng l =
        snd (extractPatterns fc fs mk
               (eng\<lparr>le_learningHistory := le_learningHistory eng @ [l],
                    le_patterns :=
                      map (\<lambda>(k, p). (k, if relatedTo fc l p then reinforce l p else p))
                        (le_patterns eng)\<rparr>)
               (drop (length (le_learningHistory eng @ [l]) - 50) (le_learningHistory eng @ [l])))"
    by (simp add: updateKnowledge_def forRelated_eq Let_def)
next
  assume "p_successRate p = Fin s \<and> p_usageCount p = Fin u \<and> u + 1 \<noteq> 0"
  then show "reinforce l p =
        p\<lparr>p_successRate :=
            Fin (case l_outcome l of
                   Success \<Rightarrow> (s * u + 1) / (u + 1)
                 | Failure \<Rightarrow> s * u / (u + 1)
                 | Partial \<Rightarrow> s),
          p_usageCount := Fin (u + 1)\<rparr>"
    using reinforce_real [of p s u l] by blast
next
  assume "p_successRate p = Fin s"
  then show "reweigh l p =
        p\<lparr>p_successRate := Fin (s * (1 - 0.1) + (if l_outcome l = Success then 1 else 0) * 0.1)\<rparr>"
    by (rule reweigh_real)
qed

text \<open>
  The example over the lookups that find the challenge: after one success the related
  pattern has success rate 1 and usage count 1.
\<close>

theorem C4_witness:
  "length (le_learningHistory ex_pattern_engine @ [ex_learning ''l1'' Success]) mod 10 \<noteq> 0 \<and>
   relatedTo ex_findChallenge (ex_learning ''l1'' Success) ex_pattern \<and>
   p_successRate ex_pattern = Fin 0.85 \<and> p_usageCount ex_pattern = Fin 0 \<and>
   le_patterns (updateKnowledge ex_findChallenge ex_findSolution (\<lambda>key. ''pattern_1'')
       ex_pattern_engine (ex_learning ''l1'' Success)) =
     [(''high-cpu-scale'', ex_pattern\<lparr>p_successRate := Fin 1, p_usageCount := Fin 1\<rparr>)]"
proof -
  let ?l = "ex_learning ''l1'' Success"
  have n: "length (le_learningHistory ex_pattern_engine @ [?l]) mod 10 \<noteq> 0"
    by (simp add: ex_pattern_engine_def)
  have r: "relatedTo ex_findChallenge ?l ex_pattern"
    by (rule ex_pattern_related)
  have s: "p_successRate ex_pattern = Fin 0.85 \<and> p_usageCount ex_pattern = Fin 0 \<and> (0::real) + 1 \<noteq> 0"
    by (simp add: ex_pattern_def)
  have o: "l_outcome ?l = Success"
    by (simp add: ex_learning_def)
  note t = C4_updateKnowledge [where fc = ex_findChallenge and fs = ex_findSolution
      and mk = "\<lambda>key. ''pattern_1''" and eng = ex_pattern_engine and l = ?l and p = ex_pattern
      and s = "0.85" and u = 0]
  from t s have f: "reinforce ?l ex_pattern =
      ex_pattern\<lparr>p_successRate := Fin 1, p_usageCount := Fin 1\<rparr>"
    by (simp add: o)
  from t n have "le_patterns (updateKnowledge ex_findChallenge ex_findSolution (\<lambda>key. ''pattern_1'')
       ex_pattern_engine ?l) =
     map (\<lambda>(k, p). (k, if relatedTo ex_findChallenge ?l p then reinforce ?l p else p))
       (le_patterns ex_pattern_engine)"
    by blast
  then show ?thesis
    using n r s f by (simp add: ex_pattern_engine_def)
qed

end
